theory Spec2Isabelle
  imports Main "HOL-Library.Word"
begin

section \<open>Python values\<close>

text \<open>
  A Python \<open>str\<close> is a sequence of Unicode code points, a \<open>bytes\<close> object a sequence
  of octets. Exceptions are values of \<open>error\<close>; a computation that may raise has the
  type \<open>error + 'a\<close>, with \<open>Inl\<close> for the exception.
\<close>

type_synonym pystr = "nat list"
type_synonym byte = "8 word"
type_synonym pybytes = "byte list"

datatype error =
    UnicodeEncodeError | UnicodeDecodeError | BinasciiError | ValueError
  | AttributeError | TypeError | RequestException | JSONDecodeError
  | KeyError | EOFError | OSError | DatabaseError

definition S :: "string \<Rightarrow> pystr" where
  \<comment> \<open>an ASCII literal as a Python \<open>str\<close>\<close>
  "S cs = map of_char cs"

definition byte_of :: "nat \<Rightarrow> byte" where
  \<comment> \<open>the octet with the given value (below 256 wherever it is used)\<close>
  "byte_of n = of_nat n"

definition try_bind :: "error + 'a \<Rightarrow> ('a \<Rightarrow> error + 'b) \<Rightarrow> error + 'b" where
  \<comment> \<open>sequencing inside a \<open>try\<close> block: the first exception ends the block\<close>
  "try_bind m f = (case m of Inl e \<Rightarrow> Inl e | Inr x \<Rightarrow> f x)"

section \<open>The codecs used by \<open>encrypt_password\<close>\<close>

subsection \<open>UTF-8\<close>

definition utf8_char :: "nat \<Rightarrow> error + pybytes" where
  \<comment> \<open>one code point; lone surrogates are refused, as \<open>str.encode('utf-8')\<close> does\<close>
  "utf8_char c =
     (if c < 0x80 then Inr [byte_of c]
      else if c < 0x800 then Inr [byte_of (0xC0 + c div 64), byte_of (0x80 + c mod 64)]
      else if 0xD800 \<le> c \<and> c \<le> 0xDFFF then Inl UnicodeEncodeError
      else if c < 0x10000 then
        Inr [byte_of (0xE0 + c div 4096), byte_of (0x80 + c div 64 mod 64),
             byte_of (0x80 + c mod 64)]
      else if c < 0x110000 then
        Inr [byte_of (0xF0 + c div 262144), byte_of (0x80 + c div 4096 mod 64),
             byte_of (0x80 + c div 64 mod 64), byte_of (0x80 + c mod 64)]
      else Inl UnicodeEncodeError)"

fun str_encode :: "pystr \<Rightarrow> error + pybytes" where
  \<comment> \<open>\<open>s.encode('utf-8')\<close>\<close>
  "str_encode [] = Inr []"
| "str_encode (c # cs) =
     try_bind (utf8_char c) (\<lambda>bs. try_bind (str_encode cs) (\<lambda>rest. Inr (bs @ rest)))"

definition is_cont :: "byte \<Rightarrow> bool" where
  "is_cont b = (0x80 \<le> unat b \<and> unat b < 0xC0)"

definition accept_cp :: "nat \<Rightarrow> nat \<Rightarrow> nat \<Rightarrow> error + pystr \<Rightarrow> error + pystr" where
  \<comment> \<open>a decoded code point is kept when it lies in the range of its sequence length\<close>
  "accept_cp lo hi c rest =
     (if lo \<le> c \<and> c < hi \<and> \<not> (0xD800 \<le> c \<and> c \<le> 0xDFFF)
      then try_bind rest (\<lambda>cs. Inr (c # cs)) else Inl UnicodeDecodeError)"

fun bytes_decode :: "pybytes \<Rightarrow> error + pystr" where
  \<comment> \<open>\<open>b.decode('utf-8')\<close>, strict: overlong forms, surrogates and stray bytes raise\<close>
  "bytes_decode [] = Inr []"
| "bytes_decode (b # bs) =
     (if unat b < 0x80 then accept_cp 0 0x80 (unat b) (bytes_decode bs)
      else if unat b < 0xC0 then Inl UnicodeDecodeError
      else if unat b < 0xE0 then
        (case bs of
           b1 # r \<Rightarrow>
             if is_cont b1
             then accept_cp 0x80 0x800 ((unat b - 0xC0) * 64 + (unat b1 - 0x80)) (bytes_decode r)
             else Inl UnicodeDecodeError
         | _ \<Rightarrow> Inl UnicodeDecodeError)
      else if unat b < 0xF0 then
        (case bs of
           b1 # b2 # r \<Rightarrow>
             if is_cont b1 \<and> is_cont b2
             then accept_cp 0x800 0x10000
                    ((unat b - 0xE0) * 4096 + (unat b1 - 0x80) * 64 + (unat b2 - 0x80))
                    (bytes_decode r)
             else Inl UnicodeDecodeError
         | _ \<Rightarrow> Inl UnicodeDecodeError)
      else if unat b < 0xF8 then
        (case bs of
           b1 # b2 # b3 # r \<Rightarrow>
             if is_cont b1 \<and> is_cont b2 \<and> is_cont b3
             then accept_cp 0x10000 0x110000
                    ((unat b - 0xF0) * 262144 + (unat b1 - 0x80) * 4096
                      + (unat b2 - 0x80) * 64 + (unat b3 - 0x80))
                    (bytes_decode r)
             else Inl UnicodeDecodeError
         | _ \<Rightarrow> Inl UnicodeDecodeError)
      else Inl UnicodeDecodeError)"

subsection \<open>Base64 (RFC 4648, standard alphabet)\<close>

definition b64_char :: "nat \<Rightarrow> byte" where
  \<comment> \<open>the character of a six-bit value: A-Z, a-z, 0-9, +, /\<close>
  "b64_char n =
     (if n < 26 then byte_of (65 + n)
      else if n < 52 then byte_of (71 + n)
      else if n < 62 then byte_of (n - 4)
      else if n = 62 then byte_of 43 else byte_of 47)"

definition b64_index :: "byte \<Rightarrow> nat option" where
  "b64_index c =
     (let n = unat c in
      if 65 \<le> n \<and> n \<le> 90 then Some (n - 65)
      else if 97 \<le> n \<and> n \<le> 122 then Some (n - 71)
      else if 48 \<le> n \<and> n \<le> 57 then Some (n + 4)
      else if n = 43 then Some 62
      else if n = 47 then Some 63
      else None)"

fun b64encode :: "pybytes \<Rightarrow> pybytes" where
  \<comment> \<open>\<open>base64.b64encode\<close>; 61 is the padding character \<open>=\<close>\<close>
  "b64encode [] = []"
| "b64encode [a] = [b64_char (unat a div 4), b64_char (unat a mod 4 * 16), 61, 61]"
| "b64encode [a, b] =
     [b64_char (unat a div 4), b64_char (unat a mod 4 * 16 + unat b div 16),
      b64_char (unat b mod 16 * 4), 61]"
| "b64encode (a # b # c # r) =
     [b64_char (unat a div 4), b64_char (unat a mod 4 * 16 + unat b div 16),
      b64_char (unat b mod 16 * 4 + unat c div 64), b64_char (unat c mod 64)]
     @ b64encode r"

definition b64_group :: "byte \<Rightarrow> byte \<Rightarrow> byte \<Rightarrow> byte \<Rightarrow> bool \<Rightarrow> error + pybytes" where
  \<comment> \<open>four characters give up to three octets; padding is accepted in the last group only\<close>
  "b64_group c1 c2 c3 c4 final =
     (case (b64_index c1, b64_index c2) of
        (Some s1, Some s2) \<Rightarrow>
          (case b64_index c3 of
             Some s3 \<Rightarrow>
               (case b64_index c4 of
                  Some s4 \<Rightarrow>
                    Inr [byte_of (s1 * 4 + s2 div 16), byte_of (s2 mod 16 * 16 + s3 div 4),
                         byte_of (s3 mod 4 * 64 + s4)]
                | None \<Rightarrow>
                    if final \<and> c4 = 61
                    then Inr [byte_of (s1 * 4 + s2 div 16), byte_of (s2 mod 16 * 16 + s3 div 4)]
                    else Inl BinasciiError)
           | None \<Rightarrow>
               if final \<and> c3 = 61 \<and> c4 = 61 then Inr [byte_of (s1 * 4 + s2 div 16)]
               else Inl BinasciiError)
      | _ \<Rightarrow> Inl BinasciiError)"

fun b64decode :: "pybytes \<Rightarrow> error + pybytes" where
  \<comment> \<open>\<open>base64.b64decode\<close> on canonical input; anything else raises \<open>binascii.Error\<close>\<close>
  "b64decode [] = Inr []"
| "b64decode (c1 # c2 # c3 # c4 # r) =
     try_bind (b64_group c1 c2 c3 c4 (r = []))
       (\<lambda>bs. try_bind (b64decode r) (\<lambda>rest. Inr (bs @ rest)))"
| "b64decode _ = Inl BinasciiError"


section \<open>JSON values and Python dictionaries\<close>

text \<open>
  What \<open>response.json()\<close> returns and what the admin tool builds and writes with
  \<open>json.dump\<close>. Python's \<open>None\<close> is \<open>JNull\<close>; numbers are integers.
\<close>

datatype json =
    JNull | JBool bool | JNum int | JStr pystr | JArr "json list" | JObj "(pystr \<times> json) list"

definition dict_get_default :: "json \<Rightarrow> pystr \<Rightarrow> json \<Rightarrow> error + json" where
  \<comment> \<open>\<open>d.get(k, default)\<close>; only a dict has \<open>get\<close>\<close>
  "dict_get_default d k dflt =
     (case d of
        JObj kvs \<Rightarrow> (case map_of kvs k of Some v \<Rightarrow> Inr v | None \<Rightarrow> Inr dflt)
      | _ \<Rightarrow> Inl AttributeError)"

definition dict_get :: "json \<Rightarrow> pystr \<Rightarrow> error + json" where
  \<comment> \<open>\<open>d.get(k)\<close>\<close>
  "dict_get d k = dict_get_default d k JNull"

fun truthy :: "json \<Rightarrow> bool" where
  \<comment> \<open>Python truth value, as tested by \<open>if x\<close> and \<open>if not x\<close>\<close>
  "truthy JNull = False"
| "truthy (JBool b) = b"
| "truthy (JNum n) = (n \<noteq> 0)"
| "truthy (JStr s) = (s \<noteq> [])"
| "truthy (JArr xs) = (xs \<noteq> [])"
| "truthy (JObj kvs) = (kvs \<noteq> [])"

fun py_eq_zero :: "json \<Rightarrow> bool" where
  \<comment> \<open>\<open>x == 0\<close>; \<open>False == 0\<close> holds in Python\<close>
  "py_eq_zero (JNum n) = (n = 0)"
| "py_eq_zero (JBool b) = (\<not> b)"
| "py_eq_zero _ = False"

definition is_space :: "nat \<Rightarrow> bool" where
  \<comment> \<open>the code points \<open>str.strip()\<close> removes\<close>
  "is_space c =
     ((9 \<le> c \<and> c \<le> 13) \<or> (28 \<le> c \<and> c \<le> 32) \<or> c = 0x85 \<or> c = 0xA0 \<or> c = 0x1680
      \<or> (0x2000 \<le> c \<and> c \<le> 0x200A) \<or> c = 0x2028 \<or> c = 0x2029 \<or> c = 0x202F
      \<or> c = 0x205F \<or> c = 0x3000)"

definition strip :: "pystr \<Rightarrow> pystr" where
  \<comment> \<open>\<open>s.strip()\<close>\<close>
  "strip s = rev (dropWhile is_space (rev (dropWhile is_space s)))"

definition rstrip_slash :: "pystr \<Rightarrow> pystr" where
  \<comment> \<open>\<open>s.rstrip('/')\<close>\<close>
  "rstrip_slash s = rev (dropWhile (\<lambda>c. c = 47) (rev s))"

section \<open>The admin tool and its surroundings\<close>

subsection \<open>Database rows\<close>

record user_row =
  user_id :: pystr
  user_nickname :: "pystr option"
  user_email :: "pystr option"
  user_status :: "pystr option"
  user_is_superuser :: bool
  user_login_channel :: "pystr option"
  user_last_login_time :: "int option"
  user_create_time :: "int option"
  user_update_time :: "int option"

record tenant_row =
  tenant_id :: pystr
  tenant_name :: "pystr option"
  tenant_llm_id :: "pystr option"
  tenant_embd_id :: "pystr option"

record user_tenant_row =
  ut_id :: pystr
  ut_user_id :: pystr
  ut_tenant_id :: pystr
  ut_role :: "pystr option"
  ut_invited_by :: "pystr option"

record tenant_llm_row =
  tl_tenant_id :: pystr
  tl_llm_name :: "pystr option"

record database =
  users :: "user_row list"
  tenants :: "tenant_row list"
  user_tenants :: "user_tenant_row list"
  tenant_llms :: "tenant_llm_row list"

datatype db_call =
    User_select
  | User_first pystr
  | Tenant_first pystr
  | UserTenant_first pystr
  | TenantLLM_count pystr
  | User_exists pystr
  | Tenant_exists pystr
  | UserService_delete_by_id pystr
  | TenantService_delete_by_id pystr
  | UserTenantService_query pystr
  | UserTenantService_delete_by_id pystr
  | TenantLLM_delete pystr

subsection \<open>HTTP, console, files\<close>

datatype request =
    GET pystr "pystr option"
  | POST pystr "pystr option" json

record response =
  status_code :: int
  authorization :: "pystr option"
  body :: "json option"

datatype out =
    P_encrypt_failed error
  | P_server_ok pystr
  | P_server_abnormal int
  | P_server_unreachable error
  | P_server_unavailable
  | P_register_calling pystr pystr
  | P_register_failed json
  | P_register_request_failed error
  | P_register_ok pystr json
  | P_token_warning
  | P_token_create_failed json
  | P_token_request_failed error
  | P_token_ok json
  | P_db_not_initialized
  | P_user_not_found pystr
  | P_user_details user_row "tenant_row option" "user_tenant_row option" nat
  | P_details_failed error
  | P_delete_warning
  | P_confirm_prompt "pystr option" "pystr option"
  | P_delete_cancelled
  | P_deleting
  | P_delete_done "pystr option" "pystr option"
  | P_delete_incomplete
  | P_delete_failed error
  | P_no_users
  | P_user_list_header
  | P_user_line user_row
  | P_user_list_total nat
  | P_user_list_failed error
  | P_test_user_banner pystr pystr pystr
  | P_test_user_created json json json json json
  | P_test_user_saved pystr

text \<open>
  \<open>world\<close> is everything the tool changes: what it has printed, the requests its
  session has sent and the session's Authorization header, the database with the
  statements issued against it, and the files written. \<open>env\<close> is what a run is given:
  the RSA library, the fields of the \<open>UserAdmin\<close> object set by its constructor, the
  server's answers (which may depend on the requests seen before), which database
  statements and file openings fail, the line typed at the prompt (\<open>None\<close> is end of
  input) and the text of the generated UUID.
\<close>

record world =
  console :: "out list"
  http_log :: "request list"
  session_auth :: "pystr option"
  db :: database
  db_log :: "db_call list"
  files :: "pystr \<Rightarrow> json option"

record 'k rsa_lib =
  importKey :: "pystr \<Rightarrow> error + 'k"
  pkcs1_encrypt :: "'k \<Rightarrow> pybytes \<Rightarrow> error + pybytes"

record 'k env =
  rsa :: "'k rsa_lib"
  host :: pystr
  public_key :: pystr
  db_initialized :: bool
  server :: "request list \<Rightarrow> request \<Rightarrow> error + response"
  db_fault :: "db_call \<Rightarrow> bool"
  open_fault :: "pystr \<Rightarrow> bool"
  stdin :: "pystr option"
  uuid4 :: pystr

definition say :: "out \<Rightarrow> world \<Rightarrow> world" where
  \<comment> \<open>\<open>print(...)\<close>\<close>
  "say x w = w\<lparr>console := console w @ [x]\<rparr>"

definition send :: "'k env \<Rightarrow> request \<Rightarrow> world \<Rightarrow> (error + response) \<times> world" where
  \<comment> \<open>\<open>self.session.get\<close> and \<open>self.session.post\<close>: the request is sent, then answered\<close>
  "send env rq w = (server env (http_log w) rq, w\<lparr>http_log := http_log w @ [rq]\<rparr>)"


subsection \<open>Credential encryption\<close>

definition encrypt_password_try :: "'k env \<Rightarrow> pystr \<Rightarrow> error + pystr" where
  \<comment> \<open>the \<open>try\<close> block of \<open>encrypt_password\<close>\<close>
  "encrypt_password_try env password =
     try_bind (str_encode password) (\<lambda>password_bytes.
     try_bind (bytes_decode (b64encode password_bytes)) (\<lambda>password_b64.
     try_bind (importKey (rsa env) (public_key env)) (\<lambda>rsa_key.
     try_bind (str_encode password_b64) (\<lambda>message.
     try_bind (pkcs1_encrypt (rsa env) rsa_key message) (\<lambda>encrypted_password.
     bytes_decode (b64encode encrypted_password))))))"

definition encrypt_password :: "'k env \<Rightarrow> pystr \<Rightarrow> world \<Rightarrow> pystr option \<times> world" where
  \<comment> \<open>\<open>except Exception\<close>: the failure is printed and \<open>None\<close> returned\<close>
  "encrypt_password env password w =
     (case encrypt_password_try env password of
        Inr encrypted \<Rightarrow> (Some encrypted, w)
      | Inl e \<Rightarrow> (None, say (P_encrypt_failed e) w))"

subsection \<open>Registration and token issuance\<close>

definition check_server_status :: "'k env \<Rightarrow> world \<Rightarrow> bool \<times> world" where
  "check_server_status env w =
     (let health_url = host env @ S ''/v1/user/login/channels'';
          (r, w1) = send env (GET health_url (session_auth w)) w
      in case r of
           Inl e \<Rightarrow> (False, say (P_server_unreachable e) w1)
         | Inr response \<Rightarrow>
             if status_code response = 200 then (True, say (P_server_ok (host env)) w1)
             else (False, say (P_server_abnormal (status_code response)) w1))"

definition response_json :: "response \<Rightarrow> error + json" where
  \<comment> \<open>\<open>response.json()\<close>: raises when the body is not JSON\<close>
  "response_json response =
     (case body response of None \<Rightarrow> Inl JSONDecodeError | Some result \<Rightarrow> Inr result)"

definition keep_authorization :: "response \<Rightarrow> world \<Rightarrow> world" where
  \<comment> \<open>a non-empty Authorization header of the response becomes the session's\<close>
  "keep_authorization response w =
     (case authorization response of
        None \<Rightarrow> w
      | Some auth_token \<Rightarrow> if auth_token \<noteq> [] then w\<lparr>session_auth := Some auth_token\<rparr> else w)"

definition unknown_error :: pystr where
  \<comment> \<open>the default of \<open>result.get('message', ...)\<close>, as code points\<close>
  "unknown_error = [0x672A, 0x77E5, 0x9519, 0x8BEF]"

definition register_user ::
  "'k env \<Rightarrow> pystr \<Rightarrow> pystr \<Rightarrow> pystr \<Rightarrow> world \<Rightarrow> json option \<times> world" where
  \<comment> \<open>\<open>_register_user\<close>\<close>
  "register_user env nickname email password w =
     (let register_url = host env @ S ''/v1/user/register'';
          (encrypted_password, w1) = encrypt_password env password w
      in case encrypted_password of
           None \<Rightarrow> (None, w1)
         | Some encrypted \<Rightarrow>
             if encrypted = [] then (None, w1)
             else
               (let payload = JObj [(S ''nickname'', JStr nickname), (S ''email'', JStr email),
                                    (S ''password'', JStr encrypted)];
                    w2 = say (P_register_calling nickname email) w1;
                    (r, w3) = send env (POST register_url (session_auth w2) payload) w2
                in case try_bind r (\<lambda>response.
                       try_bind (response_json response) (\<lambda>result.
                       try_bind (dict_get result (S ''code'')) (\<lambda>code.
                         if py_eq_zero code then
                           Inr (Some result, keep_authorization response w3)
                         else
                           try_bind (dict_get_default result (S ''message'') (JStr unknown_error))
                             (\<lambda>error_msg. Inr (None, say (P_register_failed error_msg) w3))))) of
                    Inr res \<Rightarrow> res
                  | Inl e \<Rightarrow> (None, say (P_register_request_failed e) w3)))"

definition get_api_token :: "'k env \<Rightarrow> world \<Rightarrow> json \<times> world" where
  \<comment> \<open>\<open>_get_api_token\<close>; \<open>JNull\<close> is \<open>None\<close>\<close>
  "get_api_token env w =
     (let token_url = host env @ S ''/v1/system/new_token'';
          (r, w1) = send env (POST token_url (session_auth w) (JObj [])) w
      in case try_bind r (\<lambda>response.
              try_bind (response_json response) (\<lambda>result.
              try_bind (dict_get result (S ''code'')) (\<lambda>code.
                if py_eq_zero code then
                  try_bind (dict_get_default result (S ''data'') (JObj [])) (\<lambda>token_data.
                  try_bind (dict_get token_data (S ''token'')) (\<lambda>api_token.
                    Inr (api_token, w1)))
                else
                  try_bind (dict_get_default result (S ''message'') (JStr unknown_error))
                    (\<lambda>error_msg. Inr (JNull, say (P_token_create_failed error_msg) w1))))) of
           Inr res \<Rightarrow> res
         | Inl e \<Rightarrow> (JNull, say (P_token_request_failed e) w1))"

definition partial_message :: pystr where
  \<comment> \<open>the text of the \<open>message\<close> field of a partial result, as code points\<close>
  "partial_message =
     [0x7528, 0x6237, 0x6CE8, 0x518C, 0x6210, 0x529F, 0xFF0C, 0x4F46, 0x41, 0x50, 0x49, 0x20,
      0x74, 0x6F, 0x6B, 0x65, 0x6E, 0x83B7, 0x53D6, 0x5931, 0x8D25]"

definition register_user_and_get_api_token ::
  "'k env \<Rightarrow> pystr \<Rightarrow> pystr \<Rightarrow> pystr \<Rightarrow> world \<Rightarrow> (error + json) \<times> world" where
  \<comment> \<open>\<open>Inl\<close> is an exception that leaves the method, \<open>Inr JNull\<close> the result \<open>None\<close>\<close>
  "register_user_and_get_api_token env nickname email password w =
     (let (alive, w1) = check_server_status env w in
      if \<not> alive then (Inr JNull, say P_server_unavailable w1)
      else
        let (register_result, w2) = register_user env nickname email password w1 in
        case register_result of
          None \<Rightarrow> (Inr JNull, w2)
        | Some result \<Rightarrow>
            if \<not> truthy result then (Inr JNull, w2)
            else
              (case try_bind (dict_get_default result (S ''data'') (JObj [])) (\<lambda>user_info.
                    try_bind (dict_get user_info (S ''id'')) (\<lambda>uid. Inr (user_info, uid))) of
                 Inl e \<Rightarrow> (Inl e, w2)
               | Inr (user_info, uid) \<Rightarrow>
                   let w3 = say (P_register_ok nickname uid) w2;
                       (api_token, w4) = get_api_token env w3
                   in if \<not> truthy api_token then
                        (Inr (JObj [(S ''user'', user_info), (S ''api_token'', JNull),
                                    (S ''message'', JStr partial_message)]),
                         say P_token_warning w4)
                      else
                        (case try_bind (dict_get user_info (S ''nickname'')) (\<lambda>nick.
                              try_bind (dict_get user_info (S ''email'')) (\<lambda>mail.
                              try_bind (dict_get user_info (S ''create_time'')) (\<lambda>created.
                              try_bind (dict_get user_info (S ''access_token'')) (\<lambda>access.
                                Inr (JObj [(S ''user'',
                                            JObj [(S ''id'', uid), (S ''nickname'', nick),
                                                  (S ''email'', mail), (S ''create_time'', created),
                                                  (S ''access_token'', access)]),
                                           (S ''api_token'', api_token),
                                           (S ''tenant_id'', uid),
                                           (S ''success'', JBool True)]))))) of
                           Inl e \<Rightarrow> (Inl e, w4)
                         | Inr complete_info \<Rightarrow> (Inr complete_info, say (P_token_ok api_token) w4))))"

definition item :: "json \<Rightarrow> pystr \<Rightarrow> error + json" where
  \<comment> \<open>\<open>d[k]\<close> on a dict\<close>
  "item d k =
     (case d of
        JObj kvs \<Rightarrow> (case map_of kvs k of Some v \<Rightarrow> Inr v | None \<Rightarrow> Inl KeyError)
      | _ \<Rightarrow> Inl TypeError)"

definition effective_suffix :: "'k env \<Rightarrow> pystr option \<Rightarrow> pystr" where
  \<comment> \<open>\<open>if not user_suffix: user_suffix = str(uuid.uuid4())[:8]\<close>\<close>
  "effective_suffix env user_suffix_arg =
     (case user_suffix_arg of
        None \<Rightarrow> take 8 (uuid4 env)
      | Some s \<Rightarrow> if s = [] then take 8 (uuid4 env) else s)"

definition create_test_user ::
  "'k env \<Rightarrow> pystr option \<Rightarrow> world \<Rightarrow> (error + json) \<times> world" where
  "create_test_user env user_suffix_arg w =
     (let user_suffix = effective_suffix env user_suffix_arg;
          nickname = S ''TestUser_'' @ user_suffix;
          email = S ''user_'' @ user_suffix @ S ''@example.com'';
          password = S ''Test123456'';
          w1 = say (P_test_user_banner nickname email password) w;
          (r, w2) = register_user_and_get_api_token env nickname email password w1
      in case r of
           Inl e \<Rightarrow> (Inl e, w2)
         | Inr result \<Rightarrow>
             if \<not> truthy result then (Inr result, w2)
             else
               (case dict_get result (S ''success'') of
                  Inl e \<Rightarrow> (Inl e, w2)
                | Inr success \<Rightarrow>
                    if \<not> truthy success then (Inr result, w2)
                    else
                      (case try_bind (item result (S ''user'')) (\<lambda>user.
                            try_bind (item user (S ''id'')) (\<lambda>uid.
                            try_bind (item user (S ''nickname'')) (\<lambda>nick.
                            try_bind (item user (S ''email'')) (\<lambda>mail.
                            try_bind (item result (S ''api_token'')) (\<lambda>api_token.
                            try_bind (item result (S ''tenant_id'')) (\<lambda>tenant.
                              Inr (P_test_user_created uid nick mail api_token tenant))))))) of
                         Inl e \<Rightarrow> (Inl e, w2)
                       | Inr created \<Rightarrow>
                           let w3 = say created w2;
                               filename = S ''ragflow_user_'' @ user_suffix @ S ''.json''
                           in if open_fault env filename then (Inl OSError, w3)
                              else
                                (Inr result,
                                 say (P_test_user_saved filename)
                                   (w3\<lparr>files := (files w3)(filename \<mapsto> result)\<rparr>)))))"


subsection \<open>Database access\<close>

definition first_row :: "'a list \<Rightarrow> 'a option" where
  \<comment> \<open>\<open>.first()\<close>\<close>
  "first_row rows = (case rows of [] \<Rightarrow> None | row # _ \<Rightarrow> Some row)"

definition query ::
  "'k env \<Rightarrow> db_call \<Rightarrow> (database \<Rightarrow> 'a) \<Rightarrow> world \<Rightarrow> (error + 'a) \<times> world" where
  \<comment> \<open>a reading statement is issued; it raises or yields its rows\<close>
  "query env call rows w =
     (let w1 = w\<lparr>db_log := db_log w @ [call]\<rparr>
      in if db_fault env call then (Inl DatabaseError, w1) else (Inr (rows (db w)), w1))"

definition execute ::
  "'k env \<Rightarrow> db_call \<Rightarrow> (database \<Rightarrow> database) \<Rightarrow> world \<Rightarrow> (error + unit) \<times> world" where
  \<comment> \<open>a deleting statement is issued; it raises and changes nothing, or takes effect\<close>
  "execute env call change w =
     (let w1 = w\<lparr>db_log := db_log w @ [call]\<rparr>
      in if db_fault env call then (Inl DatabaseError, w1)
         else (Inr (), w1\<lparr>db := change (db w)\<rparr>))"

definition User_where_id :: "pystr \<Rightarrow> database \<Rightarrow> user_row list" where
  "User_where_id uid d = filter (\<lambda>u. user_id u = uid) (users d)"

definition Tenant_where_id :: "pystr \<Rightarrow> database \<Rightarrow> tenant_row list" where
  "Tenant_where_id uid d = filter (\<lambda>t. tenant_id t = uid) (tenants d)"

definition UserTenant_where_user_id :: "pystr \<Rightarrow> database \<Rightarrow> user_tenant_row list" where
  "UserTenant_where_user_id uid d = filter (\<lambda>r. ut_user_id r = uid) (user_tenants d)"

definition TenantLLM_where_tenant_id :: "pystr \<Rightarrow> database \<Rightarrow> tenant_llm_row list" where
  "TenantLLM_where_tenant_id uid d = filter (\<lambda>r. tl_tenant_id r = uid) (tenant_llms d)"

text \<open>
  Modelled from the spec: the service classes \<open>UserService\<close>, \<open>TenantService\<close> and
  \<open>UserTenantService\<close> of \<open>api.db.services\<close> are not part of the sources. Their
  \<open>delete_by_id\<close> deletes the rows of their table with the given identifier, and
  \<open>UserTenantService.query(tenant_id=...)\<close> lists the membership rows of a unit, as
  the specification describes the four deletions of the teardown.
\<close>

definition UserTenant_where_tenant_id :: "pystr \<Rightarrow> database \<Rightarrow> user_tenant_row list" where
  \<comment> \<open>Modelled from the spec: the rows \<open>UserTenantService.query(tenant_id=uid)\<close> returns\<close>
  "UserTenant_where_tenant_id uid d = filter (\<lambda>r. ut_tenant_id r = uid) (user_tenants d)"

definition delete_user_rows :: "pystr \<Rightarrow> database \<Rightarrow> database" where
  \<comment> \<open>Modelled from the spec: the effect of \<open>UserService.delete_by_id\<close>\<close>
  "delete_user_rows uid d = d\<lparr>users := filter (\<lambda>u. user_id u \<noteq> uid) (users d)\<rparr>"

definition delete_tenant_rows :: "pystr \<Rightarrow> database \<Rightarrow> database" where
  \<comment> \<open>Modelled from the spec: the effect of \<open>TenantService.delete_by_id\<close>\<close>
  "delete_tenant_rows uid d = d\<lparr>tenants := filter (\<lambda>t. tenant_id t \<noteq> uid) (tenants d)\<rparr>"

definition delete_user_tenant_rows :: "pystr \<Rightarrow> database \<Rightarrow> database" where
  \<comment> \<open>Modelled from the spec: the effect of \<open>UserTenantService.delete_by_id\<close>\<close>
  "delete_user_tenant_rows rid d =
     d\<lparr>user_tenants := filter (\<lambda>r. ut_id r \<noteq> rid) (user_tenants d)\<rparr>"

definition delete_tenant_llm_rows :: "pystr \<Rightarrow> database \<Rightarrow> database" where
  \<comment> \<open>\<open>TenantLLM.delete().where(TenantLLM.tenant_id == uid).execute()\<close>\<close>
  "delete_tenant_llm_rows uid d =
     d\<lparr>tenant_llms := filter (\<lambda>r. tl_tenant_id r \<noteq> uid) (tenant_llms d)\<rparr>"

subsection \<open>Inspection\<close>

definition get_user_details :: "'k env \<Rightarrow> pystr \<Rightarrow> world \<Rightarrow> user_row option \<times> world" where
  "get_user_details env uid w =
     (if \<not> db_initialized env then (None, say P_db_not_initialized w)
      else
        let (r, w1) = query env (User_first uid) (\<lambda>d. first_row (User_where_id uid d)) w
        in case r of
             Inl e \<Rightarrow> (None, say (P_details_failed e) w1)
           | Inr None \<Rightarrow> (None, say (P_user_not_found uid) w1)
           | Inr (Some user) \<Rightarrow>
               (let (rt, w2) =
                      query env (Tenant_first uid) (\<lambda>d. first_row (Tenant_where_id uid d)) w1
                in case rt of
                     Inl e \<Rightarrow> (None, say (P_details_failed e) w2)
                   | Inr tenant \<Rightarrow>
                       (let (ru, w3) =
                              query env (UserTenant_first uid)
                                (\<lambda>d. first_row (UserTenant_where_user_id uid d)) w2
                        in case ru of
                             Inl e \<Rightarrow> (None, say (P_details_failed e) w3)
                           | Inr user_tenant \<Rightarrow>
                               (let (rc, w4) =
                                      query env (TenantLLM_count uid)
                                        (\<lambda>d. length (TenantLLM_where_tenant_id uid d)) w3
                                in case rc of
                                     Inl e \<Rightarrow> (None, say (P_details_failed e) w4)
                                   | Inr tenant_llm_count \<Rightarrow>
                                       (Some user,
                                        say (P_user_details user tenant user_tenant
                                               tenant_llm_count) w4)))))"

definition opt_str :: "pystr option \<Rightarrow> json" where
  "opt_str v = (case v of None \<Rightarrow> JNull | Some s \<Rightarrow> JStr s)"

definition user_dict :: "user_row \<Rightarrow> json" where
  "user_dict u =
     JObj [(S ''id'', JStr (user_id u)), (S ''nickname'', opt_str (user_nickname u)),
           (S ''email'', opt_str (user_email u)), (S ''status'', opt_str (user_status u)),
           (S ''is_superuser'', JBool (user_is_superuser u)),
           (S ''login_channel'', opt_str (user_login_channel u))]"

fun list_users_loop :: "user_row list \<Rightarrow> json list \<Rightarrow> world \<Rightarrow> (error + json list) \<times> world" where
  \<comment> \<open>the \<open>for\<close> loop; a width in the format of a line raises TypeError on \<open>None\<close>\<close>
  "list_users_loop [] user_list w = (Inr user_list, w)"
| "list_users_loop (u # us) user_list w =
     (if user_nickname u = None \<or> user_email u = None \<or> user_login_channel u = None
      then (Inl TypeError, w)
      else list_users_loop us (user_list @ [user_dict u]) (say (P_user_line u) w))"

definition list_users :: "'k env \<Rightarrow> world \<Rightarrow> json list \<times> world" where
  "list_users env w =
     (if \<not> db_initialized env then ([], say P_db_not_initialized w)
      else
        let (r, w1) = query env User_select users w
        in case r of
             Inl e \<Rightarrow> ([], say (P_user_list_failed e) w1)
           | Inr rows \<Rightarrow>
               if rows = [] then ([], say P_no_users w1)
               else
                 (case list_users_loop rows [] (say P_user_list_header w1) of
                    (Inl e, w2) \<Rightarrow> ([], say (P_user_list_failed e) w2)
                  | (Inr user_list, w2) \<Rightarrow>
                      (user_list, say (P_user_list_total (length user_list)) w2)))"

subsection \<open>Teardown\<close>

definition rollback_user_registration :: "'k env \<Rightarrow> pystr \<Rightarrow> world \<Rightarrow> world" where
  \<comment> \<open>\<open>_rollback_user_registration\<close>: four \<open>try\<close> blocks, each \<open>except Exception: pass\<close>\<close>
  "rollback_user_registration env uid w =
     (let w1 = snd (execute env (UserService_delete_by_id uid) (delete_user_rows uid) w);
          w2 = snd (execute env (TenantService_delete_by_id uid) (delete_tenant_rows uid) w1);
          (u, w3) = query env (UserTenantService_query uid) (UserTenant_where_tenant_id uid) w2;
          w4 = (case u of
                  Inl e \<Rightarrow> w3
                | Inr [] \<Rightarrow> w3
                | Inr (u0 # _) \<Rightarrow>
                    snd (execute env (UserTenantService_delete_by_id (ut_id u0))
                           (delete_user_tenant_rows (ut_id u0)) w3))
      in snd (execute env (TenantLLM_delete uid) (delete_tenant_llm_rows uid) w4))"

definition confirm_prompt :: "'k env \<Rightarrow> user_row \<Rightarrow> bool \<Rightarrow> world \<Rightarrow> (error + bool) \<times> world" where
  \<comment> \<open>the \<open>if confirm:\<close> block of \<open>delete_user\<close>; \<open>Inr True\<close> lets the deletion go on\<close>
  "confirm_prompt env user confirm w =
     (if confirm then
        (let w1 = say (P_confirm_prompt (user_nickname user) (user_email user))
                    (say P_delete_warning w)
         in case stdin env of
              None \<Rightarrow> (Inl EOFError, w1)
            | Some line \<Rightarrow>
                if strip line \<noteq> S ''DELETE'' then (Inr False, say P_delete_cancelled w1)
                else (Inr True, w1))
      else (Inr True, w))"

definition delete_user :: "'k env \<Rightarrow> pystr \<Rightarrow> bool \<Rightarrow> world \<Rightarrow> bool \<times> world" where
  "delete_user env uid confirm w =
     (if \<not> db_initialized env then (False, say P_db_not_initialized w)
      else
        let (user_details, w1) = get_user_details env uid w
        in case user_details of
             None \<Rightarrow> (False, w1)
           | Some user \<Rightarrow>
               (case confirm_prompt env user confirm w1 of
                  (Inl e, w2) \<Rightarrow> (False, say (P_delete_failed e) w2)
                | (Inr False, w2) \<Rightarrow> (False, w2)
                | (Inr True, w2) \<Rightarrow>
                    (let w3 = rollback_user_registration env uid (say P_deleting w2);
                         (ue, w4) = query env (User_exists uid) (\<lambda>d. User_where_id uid d \<noteq> []) w3
                     in case ue of
                          Inl e \<Rightarrow> (False, say (P_delete_failed e) w4)
                        | Inr user_exists \<Rightarrow>
                            (let (te, w5) =
                                   query env (Tenant_exists uid)
                                     (\<lambda>d. Tenant_where_id uid d \<noteq> []) w4
                             in case te of
                                  Inl e \<Rightarrow> (False, say (P_delete_failed e) w5)
                                | Inr tenant_exists \<Rightarrow>
                                    if \<not> user_exists \<and> \<not> tenant_exists then
                                      (True,
                                       say (P_delete_done (user_nickname user) (user_email user)) w5)
                                    else (False, say P_delete_incomplete w5)))))"

section \<open>The client wrapper\<close>

datatype 'a arg = Omitted | PyNone | Given 'a

record rag_handle =
  rag_api_key :: pystr
  rag_base_url :: pystr

record sdk_client =
  client_base_url :: pystr
  client_api_token :: pystr
  client_rag :: rag_handle

definition default_base_url :: pystr where
  "default_base_url = S ''http://localhost:9380''"

definition RAGFlowSDKClient_init :: "pystr arg \<Rightarrow> pystr arg \<Rightarrow> error + sdk_client" where
  \<comment> \<open>\<open>RAGFlowSDKClient.__init__(base_url="http://localhost:9380", api_token=None)\<close>\<close>
  "RAGFlowSDKClient_init base_url_arg api_token_arg =
     (let base_url = (case base_url_arg of Omitted \<Rightarrow> Given default_base_url | a \<Rightarrow> a);
          api_token = (case api_token_arg of Omitted \<Rightarrow> PyNone | a \<Rightarrow> a)
      in case api_token of
           Given token \<Rightarrow>
             if token = [] then Inl ValueError
             else
               (case base_url of
                  Given url \<Rightarrow>
                    Inr \<lparr>client_base_url = rstrip_slash url, client_api_token = token,
                         client_rag = \<lparr>rag_api_key = token, rag_base_url = url\<rparr>\<rparr>
                | _ \<Rightarrow> Inl AttributeError)
         | _ \<Rightarrow> Inl ValueError)"

datatype 'h sdk_call =
    RAG_list_datasets int int "pystr option"
  | DataSet_list_documents 'h "pystr option" int int
  | Document_list_chunks 'h "pystr option" int int
  | RAG_list_chats int int "pystr option"
  | Chat_list_sessions 'h int int "pystr option"
  | RAG_list_agents int int "pystr option"
  | Agent_list_sessions 'h int int

datatype log_record = Log_info nat | Log_error error

record 'h sdk_world =
  sdk_calls :: "'h sdk_call list"
  sdk_log :: "log_record list"

definition logged_listing ::
  "('h sdk_call \<Rightarrow> error + 'a list option) \<Rightarrow> 'h sdk_call \<Rightarrow> 'h sdk_world
     \<Rightarrow> (error + 'a list option) \<times> 'h sdk_world" where
  \<comment> \<open>the body shared by the listing methods: call, log the length, return; on any
      exception (also \<open>len(None)\<close>) log the error and raise it again\<close>
  "logged_listing remote call w =
     (let w1 = w\<lparr>sdk_calls := sdk_calls w @ [call]\<rparr>
      in case remote call of
           Inl e \<Rightarrow> (Inl e, w1\<lparr>sdk_log := sdk_log w1 @ [Log_error e]\<rparr>)
         | Inr None \<Rightarrow> (Inl TypeError, w1\<lparr>sdk_log := sdk_log w1 @ [Log_error TypeError]\<rparr>)
         | Inr (Some items) \<Rightarrow>
             (Inr (Some items), w1\<lparr>sdk_log := sdk_log w1 @ [Log_info (length items)]\<rparr>))"

definition list_datasets where
  "list_datasets remote page page_size name =
     logged_listing remote (RAG_list_datasets page page_size name)"

definition list_documents where
  "list_documents remote dataset keywords page page_size =
     logged_listing remote (DataSet_list_documents dataset keywords page page_size)"

definition list_chunks where
  "list_chunks remote document keywords page page_size =
     logged_listing remote (Document_list_chunks document keywords page page_size)"

definition list_chat_assistants where
  "list_chat_assistants remote page page_size name =
     logged_listing remote (RAG_list_chats page page_size name)"

definition list_sessions where
  "list_sessions remote chat page page_size name =
     logged_listing remote (Chat_list_sessions chat page page_size name)"

definition list_agents where
  "list_agents remote page page_size title =
     logged_listing remote (RAG_list_agents page page_size title)"

definition list_agent_sessions where
  "list_agent_sessions remote agent page page_size =
     logged_listing remote (Agent_list_sessions agent page page_size)"


section \<open>The statements of the specification\<close>

definition spec_encrypt_procedure :: "'k env \<Rightarrow> pystr \<Rightarrow> pystr option" where
  \<comment> \<open>the procedure in the words of the specification: Base64 of the UTF-8 octets of the
      password, encrypted under the loaded public key, Base64 of the ciphertext as text;
      \<open>None\<close> as soon as a step fails\<close>
  "spec_encrypt_procedure env password =
     (case str_encode password of
        Inl e \<Rightarrow> None
      | Inr utf8 \<Rightarrow>
          (case importKey (rsa env) (public_key env) of
             Inl e \<Rightarrow> None
           | Inr key \<Rightarrow>
               (case pkcs1_encrypt (rsa env) key (b64encode utf8) of
                  Inl e \<Rightarrow> None
                | Inr ciphertext \<Rightarrow> Some (map unat (b64encode ciphertext)))))"

text \<open>
  Modelled from the spec: the server's decryption is not part of the sources. It is the
  inverse the specification names: Base64-decode the transported text, decrypt with the
  private key, Base64-decode the result, and read the octets as UTF-8.
\<close>

definition server_decrypt :: "(pybytes \<Rightarrow> error + pybytes) \<Rightarrow> pystr \<Rightarrow> error + pystr" where
  \<comment> \<open>Modelled from the spec: the server-side inverse of \<open>encrypt_password\<close>\<close>
  "server_decrypt private_decrypt text =
     try_bind (str_encode text) (\<lambda>transported.
     try_bind (b64decode transported) (\<lambda>ciphertext.
     try_bind (private_decrypt ciphertext) (\<lambda>message.
     try_bind (b64decode message) bytes_decode)))"

definition matching_private_key :: "'k env \<Rightarrow> (pybytes \<Rightarrow> error + pybytes) \<Rightarrow> bool" where
  \<comment> \<open>the private key decrypts what the loaded public key encrypts\<close>
  "matching_private_key env private_decrypt =
     (\<forall>key message ciphertext.
        importKey (rsa env) (public_key env) = Inr key \<longrightarrow>
        pkcs1_encrypt (rsa env) key message = Inr ciphertext \<longrightarrow>
        private_decrypt ciphertext = Inr message)"

section \<open>A concrete setting\<close>

text \<open>
  The theorems below hold for every RSA library, server, database and input. To run the
  definitions, this setting fixes one of each. Its cipher keeps the block layout and the
  length limit of PKCS#1 v1.5 (a message of at most \<open>k - 11\<close> octets for a modulus of
  \<open>k\<close> octets) and leaves the exponentiation out; the key is the length of the
  modulus, 256 octets.
\<close>

definition demo_rsa :: "nat rsa_lib" where
  "demo_rsa =
     \<lparr>importKey = (\<lambda>pem. if pem = S ''demo public key'' then Inr 256 else Inl ValueError),
      pkcs1_encrypt =
        (\<lambda>k message.
           if k < length message + 11 then Inl ValueError
           else Inr ([0, 2] @ replicate (k - length message - 3) 0xFF @ [0] @ message))\<rparr>"

definition demo_decrypt :: "pybytes \<Rightarrow> error + pybytes" where
  "demo_decrypt block =
     (case block of
        z # t # rest \<Rightarrow>
          (case dropWhile (\<lambda>b. b \<noteq> 0) rest of
             [] \<Rightarrow> Inl ValueError
           | _ # message \<Rightarrow> if z = 0 \<and> t = 2 then Inr message else Inl ValueError)
      | _ \<Rightarrow> Inl ValueError)"

definition demo_user :: json where
  "demo_user =
     JObj [(S ''id'', JStr (S ''u1'')), (S ''nickname'', JStr (S ''TestUser_ab'')),
           (S ''email'', JStr (S ''user_ab@example.com'')), (S ''create_time'', JNum 1700000000),
           (S ''access_token'', JStr (S ''acc''))]"

definition demo_server :: "bool \<Rightarrow> bool \<Rightarrow> bool \<Rightarrow> request list \<Rightarrow> request \<Rightarrow> error + response" where
  \<comment> \<open>a server whose probe, registration and token issuance succeed as the flags say\<close>
  "demo_server probe_ok register_ok token_ok history rq =
     (case rq of
        GET url auth \<Rightarrow>
          Inr \<lparr>status_code = (if probe_ok then 200 else 503), authorization = None,
               body = None\<rparr>
      | POST url auth payload \<Rightarrow>
          if url = S ''http://localhost:9380/v1/user/register'' then
            Inr \<lparr>status_code = 200,
                 authorization = (if register_ok then Some (S ''session'') else None),
                 body = Some (if register_ok
                              then JObj [(S ''code'', JNum 0), (S ''data'', demo_user)]
                              else JObj [(S ''code'', JNum 103),
                                         (S ''message'', JStr (S ''registered''))])\<rparr>
          else
            Inr \<lparr>status_code = 200, authorization = None,
                 body = Some (if token_ok
                              then JObj [(S ''code'', JNum 0),
                                         (S ''data'', JObj [(S ''token'', JStr (S ''ragflow-t1''))])]
                              else JObj [(S ''code'', JNum 102),
                                         (S ''message'', JStr (S ''refused''))])\<rparr>)"

definition demo_env :: "nat env" where
  "demo_env =
     \<lparr>rsa = demo_rsa, host = S ''http://localhost:9380'', public_key = S ''demo public key'',
      db_initialized = True, server = demo_server True True True, db_fault = (\<lambda>call. False),
      open_fault = (\<lambda>name. False), stdin = Some (S ''DELETE''),
      uuid4 = S ''1b4e28ba-2fa1-11d2-883f-0016d3cca427''\<rparr>"

definition demo_account :: user_row where
  "demo_account =
     \<lparr>user_id = S ''u1'', user_nickname = Some (S ''ann''), user_email = Some (S ''ann@example.com''),
      user_status = Some (S ''1''), user_is_superuser = False,
      user_login_channel = Some (S ''password''), user_last_login_time = None,
      user_create_time = Some 1700000000, user_update_time = None\<rparr>"

definition demo_db :: database where
  "demo_db =
     \<lparr>users = [demo_account],
      tenants = [\<lparr>tenant_id = S ''u1'', tenant_name = Some (S ''ann''), tenant_llm_id = None,
                  tenant_embd_id = None\<rparr>],
      user_tenants = [\<lparr>ut_id = S ''m1'', ut_user_id = S ''u1'', ut_tenant_id = S ''u1'',
                       ut_role = Some (S ''owner''), ut_invited_by = Some (S ''u1'')\<rparr>],
      tenant_llms = [\<lparr>tl_tenant_id = S ''u1'', tl_llm_name = Some (S ''m'')\<rparr>,
                     \<lparr>tl_tenant_id = S ''u2'', tl_llm_name = Some (S ''m'')\<rparr>]\<rparr>"

definition empty_db :: database where
  "empty_db = \<lparr>users = [], tenants = [], user_tenants = [], tenant_llms = []\<rparr>"

definition world0 :: "database \<Rightarrow> world" where
  \<comment> \<open>nothing printed, sent, issued or written yet\<close>
  "world0 d =
     \<lparr>console = [], http_log = [], session_auth = None, db = d, db_log = [],
      files = (\<lambda>name. None)\<rparr>"


definition env_with_faults :: "nat env \<Rightarrow> db_call list \<Rightarrow> nat env" where
  \<comment> \<open>the setting with the listed database statements made to fail\<close>
  "env_with_faults env calls = env\<lparr>db_fault := (\<lambda>call. call \<in> set calls)\<rparr>"

definition demo_remote :: "nat sdk_call \<Rightarrow> error + nat list option" where
  \<comment> \<open>a remote service with no datasets and two items of everything else\<close>
  "demo_remote call =
     (case call of RAG_list_datasets page page_size name \<Rightarrow> Inr (Some []) | _ \<Rightarrow> Inr (Some [1, 2]))"

definition sdk_world0 :: "nat sdk_world" where
  "sdk_world0 = \<lparr>sdk_calls = [], sdk_log = []\<rparr>"

definition demo_cipher_text :: pystr where
  \<comment> \<open>the transported form of the password of the test users, in this setting\<close>
  "demo_cipher_text = the (spec_encrypt_procedure demo_env (S ''Test123456''))"

definition demo_result :: json where
  \<comment> \<open>what a complete registration returns in this setting\<close>
  "demo_result =
     JObj [(S ''user'',
            JObj [(S ''id'', JStr (S ''u1'')), (S ''nickname'', JStr (S ''TestUser_ab'')),
                  (S ''email'', JStr (S ''user_ab@example.com'')),
                  (S ''create_time'', JNum 1700000000), (S ''access_token'', JStr (S ''acc''))]),
           (S ''api_token'', JStr (S ''ragflow-t1'')), (S ''tenant_id'', JStr (S ''u1'')),
           (S ''success'', JBool True)]"

definition demo_env_server :: "bool \<Rightarrow> bool \<Rightarrow> bool \<Rightarrow> nat env" where
  \<comment> \<open>the setting with a server whose steps succeed as the flags say\<close>
  "demo_env_server probe_ok register_ok token_ok =
     demo_env\<lparr>server := demo_server probe_ok register_ok token_ok\<rparr>"

section \<open>Vocabulary of the statements about requests\<close>

definition sent_since :: "world \<Rightarrow> world \<Rightarrow> request list" where
  \<comment> \<open>the requests sent between two states of the world\<close>
  "sent_since w w' = drop (length (http_log w)) (http_log w')"

fun request_url :: "request \<Rightarrow> pystr" where
  "request_url (GET url auth) = url"
| "request_url (POST url auth payload) = url"

section \<open>Vocabulary of the statements about the database\<close>

definition first_membership :: "'k env \<Rightarrow> pystr \<Rightarrow> database \<Rightarrow> user_tenant_row option" where
  \<comment> \<open>the membership row the teardown goes on to delete: the first the query returns\<close>
  "first_membership env uid d =
     (if db_fault env (UserTenantService_query uid) then None
      else first_row (UserTenant_where_tenant_id uid d))"

definition no_delete_fault :: "'k env \<Rightarrow> pystr \<Rightarrow> bool" where
  \<comment> \<open>none of the statements of the teardown fails\<close>
  "no_delete_fault env uid =
     (\<not> db_fault env (UserService_delete_by_id uid)
      \<and> \<not> db_fault env (TenantService_delete_by_id uid)
      \<and> \<not> db_fault env (UserTenantService_query uid)
      \<and> (\<forall>rid. \<not> db_fault env (UserTenantService_delete_by_id rid))
      \<and> \<not> db_fault env (TenantLLM_delete uid))"

fun is_sub_delete :: "db_call \<Rightarrow> bool" where
  \<comment> \<open>the statements of the four blocks of the teardown\<close>
  "is_sub_delete (UserService_delete_by_id uid) = True"
| "is_sub_delete (TenantService_delete_by_id uid) = True"
| "is_sub_delete (UserTenantService_query uid) = True"
| "is_sub_delete (UserTenantService_delete_by_id rid) = True"
| "is_sub_delete (TenantLLM_delete uid) = True"
| "is_sub_delete _ = False"

definition issued_since :: "world \<Rightarrow> world \<Rightarrow> db_call list" where
  \<comment> \<open>the statements issued between two states of the world\<close>
  "issued_since w w' = drop (length (db_log w)) (db_log w')"

section \<open>Properties of the codecs\<close>

lemma unat_byte_of: "n < 256 \<Longrightarrow> unat (byte_of n) = n"
  by (simp add: byte_of_def unat_of_nat)

lemma byte_of_unat: "byte_of (unat b) = b"
  by (simp add: byte_of_def)

lemma unat_byte_lt: "unat (b :: byte) < 256"
  using unsigned_less [of b, where 'a = nat] by simp

lemma try_bind_Inr [simp]: "try_bind (Inr x) f = f x"
  by (simp add: try_bind_def)

lemma try_bind_Inl [simp]: "try_bind (Inl e) f = Inl e"
  by (simp add: try_bind_def)

lemma b64_index_char: "n < 64 \<Longrightarrow> b64_index (b64_char n) = Some n"
  unfolding b64_index_def b64_char_def Let_def
  by (auto simp: unat_byte_of)

lemma b64_char_ascii: "n < 64 \<Longrightarrow> unat (b64_char n) < 0x80"
  by (auto simp: b64_char_def unat_byte_of)

lemma b64_index_pad: "b64_index 61 = None"
  by (simp add: b64_index_def)

lemma mul_add_div: "q < k \<Longrightarrow> (m * k + q) div k = (m::nat)"
  by simp

lemma mul_add_mod: "q < k \<Longrightarrow> (m * k + q) mod k = (q::nat)"
  by simp

lemma sextets_lt:
  fixes x y :: nat
  assumes "x < 256" "y < 256"
  shows "x div 4 < 64" "x mod 4 * 16 + y div 16 < 64" "x mod 16 * 4 + y div 64 < 64" "x mod 64 < 64"
        "y div 16 < 16" "y div 64 < 4" "x mod 4 * 16 < 64" "x mod 16 * 4 < 64"
proof -
  show "x div 4 < 64" using assms by simp
  show d16: "y div 16 < 16" using assms by simp
  show d64: "y div 64 < 4" using assms by simp
  have "x mod 4 < 4" by simp
  then have "x mod 4 \<le> 3" by simp
  then have a: "x mod 4 * 16 \<le> 48" by simp
  then show "x mod 4 * 16 + y div 16 < 64" using d16 by simp
  show "x mod 4 * 16 < 64" using a by simp
  have "x mod 16 < 16" by simp
  then have "x mod 16 \<le> 15" by simp
  then have b: "x mod 16 * 4 \<le> 60" by simp
  then show "x mod 16 * 4 + y div 64 < 64" using d64 by simp
  show "x mod 16 * 4 < 64" using b by simp
  show "x mod 64 < 64" by simp
qed

lemma b64_group3:
  "b64_group (b64_char (unat a div 4)) (b64_char (unat a mod 4 * 16 + unat b div 16))
      (b64_char (unat b mod 16 * 4 + unat c div 64)) (b64_char (unat c mod 64)) fin
   = Inr [a, b, c]"
proof -
  note lt = unat_byte_lt [of a] unat_byte_lt [of b] unat_byte_lt [of c]
  have i1: "b64_index (b64_char (unat a div 4)) = Some (unat a div 4)"
    by (rule b64_index_char) (rule sextets_lt lt)+
  have i2: "b64_index (b64_char (unat a mod 4 * 16 + unat b div 16))
              = Some (unat a mod 4 * 16 + unat b div 16)"
    by (rule b64_index_char) (rule sextets_lt lt)+
  have i3: "b64_index (b64_char (unat b mod 16 * 4 + unat c div 64))
              = Some (unat b mod 16 * 4 + unat c div 64)"
    by (rule b64_index_char) (rule sextets_lt lt)+
  have i4: "b64_index (b64_char (unat c mod 64)) = Some (unat c mod 64)"
    by (rule b64_index_char) simp
  have b16: "unat b div 16 < 16" and c64: "unat c div 64 < 4"
    using lt by simp_all
  have e1: "unat a div 4 * 4 + (unat a mod 4 * 16 + unat b div 16) div 16 = unat a"
    by (simp only: mul_add_div [OF b16] div_mult_mod_eq)
  have e2: "(unat a mod 4 * 16 + unat b div 16) mod 16 * 16
              + (unat b mod 16 * 4 + unat c div 64) div 4 = unat b"
    by (simp only: mul_add_mod [OF b16] mul_add_div [OF c64] div_mult_mod_eq)
  have e3: "(unat b mod 16 * 4 + unat c div 64) mod 4 * 64 + unat c mod 64 = unat c"
    by (simp only: mul_add_mod [OF c64] div_mult_mod_eq)
  show ?thesis
    unfolding b64_group_def i1 i2 i3 i4 by (simp only: e1 e2 e3 byte_of_unat prod.case option.case)
qed

lemma b64_group2:
  "b64_group (b64_char (unat a div 4)) (b64_char (unat a mod 4 * 16 + unat b div 16))
      (b64_char (unat b mod 16 * 4)) 61 True
   = Inr [a, b]"
proof -
  note lt = unat_byte_lt [of a] unat_byte_lt [of b]
  have i1: "b64_index (b64_char (unat a div 4)) = Some (unat a div 4)"
    by (rule b64_index_char) (rule sextets_lt lt)+
  have i2: "b64_index (b64_char (unat a mod 4 * 16 + unat b div 16))
              = Some (unat a mod 4 * 16 + unat b div 16)"
    by (rule b64_index_char) (rule sextets_lt lt)+
  have i3: "b64_index (b64_char (unat b mod 16 * 4)) = Some (unat b mod 16 * 4)"
    by (rule b64_index_char) (rule sextets_lt lt)+
  have b16: "unat b div 16 < 16"
    using lt by simp
  have e1: "unat a div 4 * 4 + (unat a mod 4 * 16 + unat b div 16) div 16 = unat a"
    by (simp only: mul_add_div [OF b16] div_mult_mod_eq)
  have e2: "(unat a mod 4 * 16 + unat b div 16) mod 16 * 16 + unat b mod 16 * 4 div 4 = unat b"
    by (simp only: mul_add_mod [OF b16]) simp
  show ?thesis
    unfolding b64_group_def i1 i2 i3 b64_index_pad
    by (simp only: e1 e2 byte_of_unat prod.case option.case simp_thms if_True)
qed

lemma b64_group1:
  "b64_group (b64_char (unat a div 4)) (b64_char (unat a mod 4 * 16)) 61 61 True = Inr [a]"
proof -
  note lt = unat_byte_lt [of a]
  have i1: "b64_index (b64_char (unat a div 4)) = Some (unat a div 4)"
    by (rule b64_index_char) (rule sextets_lt lt)+
  have i2: "b64_index (b64_char (unat a mod 4 * 16)) = Some (unat a mod 4 * 16)"
    by (rule b64_index_char) (rule sextets_lt lt)+
  have e1: "unat a div 4 * 4 + unat a mod 4 * 16 div 16 = unat a"
    by simp
  show ?thesis
    unfolding b64_group_def i1 i2 b64_index_pad
    by (simp only: e1 byte_of_unat prod.case option.case simp_thms if_True)
qed

lemma b64decode_b64encode: "b64decode (b64encode bs) = Inr bs"
proof (induction bs rule: b64encode.induct)
  case 1
  show ?case by simp
next
  case (2 a)
  show ?case by (simp add: b64_group1)
next
  case (3 a b)
  show ?case by (simp add: b64_group2)
next
  case (4 a b c r)
  then show ?case by (simp add: b64_group3)
qed

lemma b64encode_ascii: "b \<in> set (b64encode bs) \<Longrightarrow> unat b < 0x80"
proof (induction bs arbitrary: b rule: b64encode.induct)
  case 1
  then show ?case by simp
next
  case (2 a)
  note lt = unat_byte_lt [of a]
  have "unat (b64_char (unat a div 4)) < 0x80" "unat (b64_char (unat a mod 4 * 16)) < 0x80"
    by (rule b64_char_ascii, (rule sextets_lt lt)+)+
  with 2 show ?case by auto
next
  case (3 a b')
  note lt = unat_byte_lt [of a] unat_byte_lt [of b']
  have "unat (b64_char (unat a div 4)) < 0x80"
       "unat (b64_char (unat a mod 4 * 16 + unat b' div 16)) < 0x80"
       "unat (b64_char (unat b' mod 16 * 4)) < 0x80"
    by (rule b64_char_ascii, (rule sextets_lt lt)+)+
  with 3 show ?case by auto
next
  case (4 a b' c r)
  note lt = unat_byte_lt [of a] unat_byte_lt [of b'] unat_byte_lt [of c]
  have "unat (b64_char (unat a div 4)) < 0x80"
       "unat (b64_char (unat a mod 4 * 16 + unat b' div 16)) < 0x80"
       "unat (b64_char (unat b' mod 16 * 4 + unat c div 64)) < 0x80"
       "unat (b64_char (unat c mod 64)) < 0x80"
    by (rule b64_char_ascii, (rule sextets_lt lt)+)+
  with 4 show ?case by auto
qed

lemma cp2: "c div 64 * 64 + c mod 64 = (c::nat)"
  by simp

lemma cp3: "c div 4096 * 4096 + c div 64 mod 64 * 64 + c mod 64 = (c::nat)"
proof -
  have "c mod 4096 = 64 * (c div 64 mod 64) + c mod 64"
    using mod_mult2_eq [of c 64 64] by simp
  moreover have "c div 4096 * 4096 + c mod 4096 = c" by simp
  ultimately show ?thesis by simp
qed

lemma cp4:
  "c div 262144 * 262144 + c div 4096 mod 64 * 4096 + c div 64 mod 64 * 64 + c mod 64 = (c::nat)"
proof -
  have "c mod 4096 = 64 * (c div 64 mod 64) + c mod 64"
    using mod_mult2_eq [of c 64 64] by simp
  moreover have "c mod 262144 = 4096 * (c div 4096 mod 64) + c mod 4096"
    using mod_mult2_eq [of c 4096 64] by simp
  moreover have "c div 262144 * 262144 + c mod 262144 = c" by simp
  ultimately show ?thesis by simp
qed

lemma is_cont_byte_of: "n < 64 \<Longrightarrow> is_cont (byte_of (0x80 + n))"
  by (simp add: is_cont_def unat_byte_of)

lemma unat_cont: "n < 64 \<Longrightarrow> unat (byte_of (0x80 + n)) - 0x80 = n"
  by (simp add: unat_byte_of)

lemma accept_cp_ok:
  "lo \<le> c \<Longrightarrow> c < hi \<Longrightarrow> \<not> (0xD800 \<le> c \<and> c \<le> 0xDFFF) \<Longrightarrow>
   accept_cp lo hi c rest = try_bind rest (\<lambda>cs. Inr (c # cs))"
  by (simp add: accept_cp_def)

lemma decode_utf8_char:
  assumes "utf8_char c = Inr cb"
  shows "bytes_decode (cb @ rest) = try_bind (bytes_decode rest) (\<lambda>cs. Inr (c # cs))"
proof -
  consider (one) "c < 0x80"
    | (two) "0x80 \<le> c" "c < 0x800"
    | (three) "0x800 \<le> c" "c < 0x10000" "\<not> (0xD800 \<le> c \<and> c \<le> 0xDFFF)"
    | (four) "0x10000 \<le> c" "c < 0x110000"
    using assms by (auto simp: utf8_char_def split: if_splits)
  then show ?thesis
  proof cases
    case one
    then have cb: "cb = [byte_of c]" using assms by (simp add: utf8_char_def)
    have u: "unat (byte_of c) = c" using one by (simp add: unat_byte_of)
    show ?thesis using one by (simp add: cb u accept_cp_def)
  next
    case two
    then have cb: "cb = [byte_of (0xC0 + c div 64), byte_of (0x80 + c mod 64)]"
      using assms by (simp add: utf8_char_def)
    have d: "c div 64 < 32" using two by simp
    have u0: "unat (byte_of (0xC0 + c div 64)) = 0xC0 + c div 64"
      using d by (simp add: unat_byte_of)
    have k: "is_cont (byte_of (0x80 + c mod 64))" by (rule is_cont_byte_of) simp
    have u1: "unat (byte_of (0x80 + c mod 64)) - 0x80 = c mod 64" by (rule unat_cont) simp
    have v: "(0xC0 + c div 64 - 0xC0) * 64 + c mod 64 = c" by simp
    show ?thesis
      using two d by (simp add: cb u0 k u1 v accept_cp_def)
  next
    case three
    then have cb: "cb = [byte_of (0xE0 + c div 4096), byte_of (0x80 + c div 64 mod 64),
                         byte_of (0x80 + c mod 64)]"
      using assms by (auto simp: utf8_char_def split: if_splits)
    have d: "c div 4096 < 16" using three by simp
    have u0: "unat (byte_of (0xE0 + c div 4096)) = 0xE0 + c div 4096"
      using d by (simp add: unat_byte_of)
    have k1: "is_cont (byte_of (0x80 + c div 64 mod 64))" by (rule is_cont_byte_of) simp
    have k2: "is_cont (byte_of (0x80 + c mod 64))" by (rule is_cont_byte_of) simp
    have u1: "unat (byte_of (0x80 + c div 64 mod 64)) - 0x80 = c div 64 mod 64"
      by (rule unat_cont) simp
    have u2: "unat (byte_of (0x80 + c mod 64)) - 0x80 = c mod 64" by (rule unat_cont) simp
    have v: "(0xE0 + c div 4096 - 0xE0) * 4096 + c div 64 mod 64 * 64 + c mod 64 = c"
      using cp3 [of c] by simp
    show ?thesis
      using three d by (simp add: cb u0 k1 k2 u1 u2 cp3 accept_cp_def)
  next
    case four
    then have cb: "cb = [byte_of (0xF0 + c div 262144), byte_of (0x80 + c div 4096 mod 64),
                         byte_of (0x80 + c div 64 mod 64), byte_of (0x80 + c mod 64)]"
      using assms by (simp add: utf8_char_def)
    have d: "c div 262144 < 8" using four by simp
    have u0: "unat (byte_of (0xF0 + c div 262144)) = 0xF0 + c div 262144"
      using d by (simp add: unat_byte_of)
    have k1: "is_cont (byte_of (0x80 + c div 4096 mod 64))" by (rule is_cont_byte_of) simp
    have k2: "is_cont (byte_of (0x80 + c div 64 mod 64))" by (rule is_cont_byte_of) simp
    have k3: "is_cont (byte_of (0x80 + c mod 64))" by (rule is_cont_byte_of) simp
    have u1: "unat (byte_of (0x80 + c div 4096 mod 64)) - 0x80 = c div 4096 mod 64"
      by (rule unat_cont) simp
    have u2: "unat (byte_of (0x80 + c div 64 mod 64)) - 0x80 = c div 64 mod 64"
      by (rule unat_cont) simp
    have u3: "unat (byte_of (0x80 + c mod 64)) - 0x80 = c mod 64" by (rule unat_cont) simp
    have v: "(0xF0 + c div 262144 - 0xF0) * 262144 + c div 4096 mod 64 * 4096
               + c div 64 mod 64 * 64 + c mod 64 = c"
      using cp4 [of c] by simp
    show ?thesis
      using four d by (simp add: cb u0 k1 k2 k3 u1 u2 u3 cp4 accept_cp_def)
  qed
qed

lemma bytes_decode_str_encode: "str_encode s = Inr bs \<Longrightarrow> bytes_decode bs = Inr s"
proof (induction s arbitrary: bs)
  case Nil
  then show ?case by simp
next
  case (Cons c cs)
  from Cons.prems obtain cb rest where
    cb: "utf8_char c = Inr cb" and rest: "str_encode cs = Inr rest" and bs: "bs = cb @ rest"
    by (auto simp: try_bind_def split: sum.splits)
  have "bytes_decode rest = Inr cs" using Cons.IH rest by simp
  then show ?case unfolding bs by (simp add: decode_utf8_char [OF cb])
qed

lemma bytes_decode_ascii:
  "\<forall>b\<in>set bs. unat b < 0x80 \<Longrightarrow> bytes_decode bs = Inr (map unat bs)"
  by (induction bs) (simp_all add: accept_cp_def)

lemma str_encode_ascii:
  "\<forall>c\<in>set s. c < 0x80 \<Longrightarrow> str_encode s = Inr (map byte_of s)"
  by (induction s) (simp_all add: utf8_char_def)

lemma bytes_decode_b64encode: "bytes_decode (b64encode bs) = Inr (map unat (b64encode bs))"
  by (rule bytes_decode_ascii) (simp add: b64encode_ascii)

lemma str_encode_b64_text: "str_encode (map unat (b64encode bs)) = Inr (b64encode bs)"
proof -
  have "\<forall>c\<in>set (map unat (b64encode bs)). c < 0x80"
    by (auto simp: b64encode_ascii)
  then have "str_encode (map unat (b64encode bs)) = Inr (map byte_of (map unat (b64encode bs)))"
    by (rule str_encode_ascii)
  then show ?thesis by (simp add: byte_of_unat comp_def)
qed


section \<open>Credential encryption\<close>

lemma encrypt_password_try_eq:
  "encrypt_password_try env password =
     (case str_encode password of
        Inl e \<Rightarrow> Inl e
      | Inr utf8 \<Rightarrow>
          (case importKey (rsa env) (public_key env) of
             Inl e \<Rightarrow> Inl e
           | Inr key \<Rightarrow>
               (case pkcs1_encrypt (rsa env) key (b64encode utf8) of
                  Inl e \<Rightarrow> Inl e
                | Inr ciphertext \<Rightarrow> Inr (map unat (b64encode ciphertext)))))"
  by (simp add: encrypt_password_try_def bytes_decode_b64encode str_encode_b64_text
        split: sum.splits)

lemma demo_matching: "matching_private_key demo_env demo_decrypt"
proof -
  have nz: "dropWhile (\<lambda>b. b \<noteq> 0) (replicate n (0xFF :: byte) @ 0 # m) = 0 # m" for n m
    by (induction n) simp_all
  show ?thesis
    by (auto simp: matching_private_key_def demo_env_def demo_rsa_def demo_decrypt_def nz
          split: if_splits)
qed

lemma demo_surrogate_try: "encrypt_password_try demo_env [0xD800] = Inl UnicodeEncodeError"
  by (simp add: encrypt_password_try_eq utf8_char_def)

text \<open>
  Claim C1. For every password, \<open>encrypt_password\<close> returns what the procedure of the
  specification gives: the Base64 text of the ciphertext of the Base64 text of the UTF-8
  octets of the password, under the loaded public key; and whenever a step raises, the
  exception is caught, reported on the console, and the result is \<open>None\<close>.
\<close>

theorem encrypt_password_procedure:
  "fst (encrypt_password env password w) = spec_encrypt_procedure env password
   \<and> (\<forall>e. encrypt_password_try env password = Inl e \<longrightarrow>
          encrypt_password env password w = (None, say (P_encrypt_failed e) w))"
  by (simp add: encrypt_password_def spec_encrypt_procedure_def encrypt_password_try_eq
        split: sum.splits)

theorem encrypt_password_procedure_witness:
  "encrypt_password_try demo_env [0xD800] = Inl UnicodeEncodeError
   \<and> encrypt_password demo_env [0xD800] (world0 empty_db)
       = (None, say (P_encrypt_failed UnicodeEncodeError) (world0 empty_db))
   \<and> fst (encrypt_password demo_env [0xD800] (world0 empty_db))
       = spec_encrypt_procedure demo_env [0xD800]"
proof -
  note t = encrypt_password_procedure [of demo_env "[0xD800]" "world0 empty_db"]
  from t have "encrypt_password_try demo_env [0xD800] = Inl UnicodeEncodeError \<longrightarrow>
      encrypt_password demo_env [0xD800] (world0 empty_db)
        = (None, say (P_encrypt_failed UnicodeEncodeError) (world0 empty_db))"
    by blast
  with t demo_surrogate_try show ?thesis by blast
qed

text \<open>
  Claim C2, as amended. Whenever \<open>encrypt_password\<close> returns a text and the private key
  decrypts what the loaded public key encrypts, the server-side inverse of that text is
  the original password. (For a password on which encryption fails there is no text to
  invert: the result is \<open>None\<close>.)
\<close>

theorem encrypt_password_roundtrip:
  assumes "matching_private_key env private_decrypt"
      and "fst (encrypt_password env password w) = Some text"
  shows "server_decrypt private_decrypt text = Inr password"
proof -
  from assms(2) obtain utf8 key ciphertext where
    u: "str_encode password = Inr utf8" and
    k: "importKey (rsa env) (public_key env) = Inr key" and
    c: "pkcs1_encrypt (rsa env) key (b64encode utf8) = Inr ciphertext" and
    t: "text = map unat (b64encode ciphertext)"
    by (auto simp: encrypt_password_def encrypt_password_try_eq split: sum.splits)
  have d: "private_decrypt ciphertext = Inr (b64encode utf8)"
    using assms(1) k c by (simp add: matching_private_key_def)
  show ?thesis
    by (simp add: server_decrypt_def t str_encode_b64_text b64decode_b64encode d
          bytes_decode_str_encode [OF u])
qed


lemma S_simps: "S [] = []" "S (c # cs) = of_char c # S cs"
  by (simp_all add: S_def)

lemma demo_encrypts:
  "\<exists>enc. fst (encrypt_password demo_env (S ''a'') (world0 empty_db)) = Some enc"
  by (simp add: encrypt_password_def encrypt_password_try_eq demo_env_def demo_rsa_def
        S_simps utf8_char_def)

theorem encrypt_password_roundtrip_witness:
  "server_decrypt demo_decrypt
     (the (fst (encrypt_password demo_env (S ''a'') (world0 empty_db)))) = Inr (S ''a'')"
proof -
  obtain enc where t: "fst (encrypt_password demo_env (S ''a'') (world0 empty_db)) = Some enc"
    using demo_encrypts by blast
  from encrypt_password_roundtrip [OF demo_matching t] t show ?thesis by simp
qed

text \<open>
  The claim as stated fails: a password of 184 letters \<open>a\<close> has a Base64 text of 248
  octets, more than the 245 a 2048-bit key takes under PKCS#1 v1.5; the encryption raises,
  \<open>encrypt_password\<close> returns \<open>None\<close>, and there is nothing for the server to decrypt.
\<close>

theorem encrypt_password_roundtrip_counterexample:
  "matching_private_key demo_env demo_decrypt
   \<and> fst (encrypt_password demo_env (replicate 184 97) (world0 empty_db)) = None"
proof -
  have a: "str_encode (replicate n 97) = Inr (replicate n 97)" for n
    by (induction n) (simp_all add: utf8_char_def byte_of_def)
  have l: "length (b64encode bs) = 4 * ((length bs + 2) div 3)" for bs
    by (induction bs rule: b64encode.induct) (simp_all, arith)
  have "fst (encrypt_password demo_env (replicate 184 97) (world0 empty_db)) = None"
    by (simp add: encrypt_password_def encrypt_password_try_eq a l demo_env_def demo_rsa_def)
  with demo_matching show ?thesis by simp
qed


section \<open>Teardown and inspection\<close>

lemma query_eq:
  "query env call rows w =
     (if db_fault env call then Inl DatabaseError else Inr (rows (db w)),
      w\<lparr>db_log := db_log w @ [call]\<rparr>)"
  by (simp add: query_def Let_def)

lemma snd_execute:
  "snd (execute env call change w) =
     w\<lparr>db_log := db_log w @ [call],
       db := (if db_fault env call then db w else change (db w))\<rparr>"
  by (simp add: execute_def Let_def)

lemma rollback_eq:
  "rollback_user_registration env uid w =
     w\<lparr>db_log := db_log w
          @ [UserService_delete_by_id uid, TenantService_delete_by_id uid,
             UserTenantService_query uid]
          @ (case first_membership env uid (db w) of
               None \<Rightarrow> []
             | Some u0 \<Rightarrow> [UserTenantService_delete_by_id (ut_id u0)])
          @ [TenantLLM_delete uid],
       db := \<lparr>users = (if db_fault env (UserService_delete_by_id uid) then users (db w)
                        else filter (\<lambda>u. user_id u \<noteq> uid) (users (db w))),
              tenants = (if db_fault env (TenantService_delete_by_id uid) then tenants (db w)
                         else filter (\<lambda>t. tenant_id t \<noteq> uid) (tenants (db w))),
              user_tenants =
                (case first_membership env uid (db w) of
                   None \<Rightarrow> user_tenants (db w)
                 | Some u0 \<Rightarrow>
                     if db_fault env (UserTenantService_delete_by_id (ut_id u0))
                     then user_tenants (db w)
                     else filter (\<lambda>r. ut_id r \<noteq> ut_id u0) (user_tenants (db w))),
              tenant_llms = (if db_fault env (TenantLLM_delete uid) then tenant_llms (db w)
                             else filter (\<lambda>r. tl_tenant_id r \<noteq> uid) (tenant_llms (db w)))\<rparr>\<rparr>"
  by (cases "UserTenant_where_tenant_id uid (db w)")
     (simp_all add: rollback_user_registration_def query_eq snd_execute first_membership_def
        first_row_def delete_user_rows_def delete_tenant_rows_def delete_user_tenant_rows_def
        delete_tenant_llm_rows_def UserTenant_where_tenant_id_def Let_def)

text \<open>
  Claim C4. The teardown issues its four deletions in order (account rows, unit rows,
  the first membership row of the unit found by a query, the model configurations of the
  unit), whatever fails: each block swallows its own exception, nothing is printed, and
  the effect of each deletion on its table depends on its own failure only. So when one
  fails, the other three are still executed and take effect.
\<close>

theorem rollback_four_attempts:
  "db_log (rollback_user_registration env uid w) =
     db_log w
     @ [UserService_delete_by_id uid, TenantService_delete_by_id uid,
        UserTenantService_query uid]
     @ (case first_membership env uid (db w) of
          None \<Rightarrow> []
        | Some u0 \<Rightarrow> [UserTenantService_delete_by_id (ut_id u0)])
     @ [TenantLLM_delete uid]
   \<and> users (db (rollback_user_registration env uid w)) =
       (if db_fault env (UserService_delete_by_id uid) then users (db w)
        else filter (\<lambda>u. user_id u \<noteq> uid) (users (db w)))
   \<and> tenants (db (rollback_user_registration env uid w)) =
       (if db_fault env (TenantService_delete_by_id uid) then tenants (db w)
        else filter (\<lambda>t. tenant_id t \<noteq> uid) (tenants (db w)))
   \<and> user_tenants (db (rollback_user_registration env uid w)) =
       (case first_membership env uid (db w) of
          None \<Rightarrow> user_tenants (db w)
        | Some u0 \<Rightarrow>
            if db_fault env (UserTenantService_delete_by_id (ut_id u0))
            then user_tenants (db w)
            else filter (\<lambda>r. ut_id r \<noteq> ut_id u0) (user_tenants (db w)))
   \<and> tenant_llms (db (rollback_user_registration env uid w)) =
       (if db_fault env (TenantLLM_delete uid) then tenant_llms (db w)
        else filter (\<lambda>r. tl_tenant_id r \<noteq> uid) (tenant_llms (db w)))
   \<and> console (rollback_user_registration env uid w) = console w"
  by (simp add: rollback_eq)

lemma get_user_details_cases:
  "get_user_details env uid w = (r, w') \<Longrightarrow>
     db w' = db w \<and> (\<forall>call \<in> set (issued_since w w'). \<not> is_sub_delete call)
     \<and> (\<forall>user. r = Some user \<longrightarrow>
           db_initialized env \<and> first_row (User_where_id uid (db w)) = Some user)"
  by (auto simp: get_user_details_def query_eq say_def issued_since_def
        split: if_splits sum.splits option.splits)

lemma confirm_prompt_cases:
  "confirm_prompt env user confirm w = (r, w') \<Longrightarrow>
     db w' = db w \<and> db_log w' = db_log w
     \<and> (r = Inr True \<longrightarrow> \<not> confirm \<or> (\<exists>line. stdin env = Some line \<and> strip line = S ''DELETE''))"
  by (auto simp: confirm_prompt_def say_def Let_def split: if_splits option.splits)

text \<open>
  Claim C9. For an identifier with no account row, \<open>get_user_details\<close> returns
  \<open>None\<close> and changes no row, in every case and without an exception; with the
  database initialised and the lookup answered, what it prints is that the user does not
  exist.
\<close>

theorem get_user_details_not_found:
  assumes "User_where_id uid (db w) = []"
  shows "fst (get_user_details env uid w) = None
         \<and> db (snd (get_user_details env uid w)) = db w
         \<and> (db_initialized env \<and> \<not> db_fault env (User_first uid) \<longrightarrow>
              snd (get_user_details env uid w)
                = say (P_user_not_found uid) (w\<lparr>db_log := db_log w @ [User_first uid]\<rparr>))"
  using assms
  by (simp add: get_user_details_def query_eq first_row_def say_def)


lemma delete_user_confirmed:
  assumes g: "get_user_details env uid w = (Some user, w1)"
      and c: "confirm_prompt env user confirm w1 = (Inr True, w2)"
  shows "delete_user env uid confirm w =
     (let w3 = rollback_user_registration env uid (say P_deleting w2);
          w4 = w3\<lparr>db_log := db_log w3 @ [User_exists uid]\<rparr>;
          w5 = w4\<lparr>db_log := db_log w4 @ [Tenant_exists uid]\<rparr>
      in if db_fault env (User_exists uid) then (False, say (P_delete_failed DatabaseError) w4)
         else if db_fault env (Tenant_exists uid)
           then (False, say (P_delete_failed DatabaseError) w5)
         else if User_where_id uid (db w3) = [] \<and> Tenant_where_id uid (db w3) = []
           then (True, say (P_delete_done (user_nickname user) (user_email user)) w5)
         else (False, say P_delete_incomplete w5))"
proof -
  have i: "db_initialized env"
    using get_user_details_cases [OF g] by simp
  show ?thesis
    by (simp add: delete_user_def i g c query_eq Let_def)
qed

text \<open>
  Claim C5. When \<open>delete_user\<close> finds the account, is confirmed, and none of the
  statements of the teardown fails, then the account row and the unit row are gone, the
  existence checks (when they are answered) find neither, and the result is \<open>True\<close>.
  Whenever a row of the account or of the unit is left, the result is \<open>False\<close>.
\<close>

theorem delete_user_reports:
  assumes run: "delete_user env uid confirm w = (ok, w')"
  shows "(\<forall>user w1 w2.
            get_user_details env uid w = (Some user, w1)
            \<and> confirm_prompt env user confirm w1 = (Inr True, w2)
            \<and> no_delete_fault env uid
            \<and> \<not> db_fault env (User_exists uid) \<and> \<not> db_fault env (Tenant_exists uid)
            \<longrightarrow> ok \<and> User_where_id uid (db w') = [] \<and> Tenant_where_id uid (db w') = [])
         \<and> (User_where_id uid (db w') \<noteq> [] \<or> Tenant_where_id uid (db w') \<noteq> [] \<longrightarrow> \<not> ok)"
proof (intro conjI allI impI)
  fix user w1 w2
  assume h: "get_user_details env uid w = (Some user, w1)
            \<and> confirm_prompt env user confirm w1 = (Inr True, w2)
            \<and> no_delete_fault env uid
            \<and> \<not> db_fault env (User_exists uid) \<and> \<not> db_fault env (Tenant_exists uid)"
  then have g: "get_user_details env uid w = (Some user, w1)"
    and c: "confirm_prompt env user confirm w1 = (Inr True, w2)"
    and nf: "no_delete_fault env uid"
    and ne: "\<not> db_fault env (User_exists uid)" "\<not> db_fault env (Tenant_exists uid)"
    by simp_all
  have u: "User_where_id uid (db (rollback_user_registration env uid (say P_deleting w2))) = []"
    using nf by (simp add: rollback_eq no_delete_fault_def User_where_id_def filter_empty_conv)
  have t: "Tenant_where_id uid (db (rollback_user_registration env uid (say P_deleting w2))) = []"
    using nf by (simp add: rollback_eq no_delete_fault_def Tenant_where_id_def filter_empty_conv)
  from run show "ok" "User_where_id uid (db w') = []" "Tenant_where_id uid (db w') = []"
    using u t ne by (auto simp: delete_user_confirmed [OF g c] Let_def say_def)
next
  assume e: "User_where_id uid (db w') \<noteq> [] \<or> Tenant_where_id uid (db w') \<noteq> []"
  show "\<not> ok"
  proof
    assume ok
    with run have r: "delete_user env uid confirm w = (True, w')" by simp
    then obtain user w1 where g: "get_user_details env uid w = (Some user, w1)"
      by (auto simp: delete_user_def split: if_splits prod.splits option.splits)
    from r g obtain w2 where c: "confirm_prompt env user confirm w1 = (Inr True, w2)"
      by (auto simp: delete_user_def get_user_details_cases [OF g]
            split: if_splits prod.splits sum.splits bool.splits)
    from r e show False
      by (auto simp: delete_user_confirmed [OF g c] Let_def say_def split: if_splits)
  qed
qed

text \<open>
  Claim C10, as amended. When confirmation is asked and the line typed, with the white
  space around it removed, is not \<open>DELETE\<close> (or the input ends), or when no account
  row matches, \<open>delete_user\<close> returns \<open>False\<close>, issues none of the statements of
  the teardown, and leaves every row as it was.
\<close>

theorem delete_user_refused:
  assumes run: "delete_user env uid confirm w = (ok, w')"
      and refuse: "(confirm \<and> (\<forall>line. stdin env = Some line \<longrightarrow> strip line \<noteq> S ''DELETE''))
                   \<or> User_where_id uid (db w) = []"
  shows "\<not> ok \<and> db w' = db w \<and> (\<forall>call \<in> set (issued_since w w'). \<not> is_sub_delete call)"
proof (cases "db_initialized env")
  case False
  with run show ?thesis by (auto simp: delete_user_def say_def issued_since_def)
next
  case True
  obtain r w1 where g: "get_user_details env uid w = (r, w1)"
    by (cases "get_user_details env uid w")
  note gc = get_user_details_cases [OF g]
  show ?thesis
  proof (cases r)
    case None
    with run True g gc show ?thesis by (auto simp: delete_user_def)
  next
    case (Some user)
    with gc have "User_where_id uid (db w) \<noteq> []"
      by (auto simp: first_row_def split: list.splits)
    with refuse have rf: "confirm" "\<forall>line. stdin env = Some line \<longrightarrow> strip line \<noteq> S ''DELETE''"
      by simp_all
    obtain c w2 where c: "confirm_prompt env user confirm w1 = (c, w2)"
      by (cases "confirm_prompt env user confirm w1")
    note cc = confirm_prompt_cases [OF c]
    from cc rf have nc: "c \<noteq> Inr True" by auto
    have l: "issued_since w w2 = issued_since w w1"
      using cc by (simp add: issued_since_def)
    from nc consider e where "c = Inl e" | "c = Inr False"
      by (cases c) auto
    then show ?thesis
    proof cases
      case 1
      with run True g Some c gc cc l show ?thesis
        by (auto simp: delete_user_def say_def issued_since_def)
    next
      case 2
      with run True g Some c gc cc l show ?thesis
        by (auto simp: delete_user_def issued_since_def)
    qed
  qed
qed



subsection \<open>Runs in the concrete setting\<close>

lemmas demo_db_simps =
  demo_env_def env_with_faults_def demo_db_def demo_account_def world0_def empty_db_def
  first_row_def User_where_id_def Tenant_where_id_def UserTenant_where_tenant_id_def
  UserTenant_where_user_id_def TenantLLM_where_tenant_id_def first_membership_def S_simps

theorem rollback_four_attempts_witness:
  "db_log (rollback_user_registration
            (env_with_faults demo_env [TenantService_delete_by_id (S ''u1'')]) (S ''u1'')
            (world0 demo_db))
     = [UserService_delete_by_id (S ''u1''), TenantService_delete_by_id (S ''u1''),
        UserTenantService_query (S ''u1''), UserTenantService_delete_by_id (S ''m1''),
        TenantLLM_delete (S ''u1'')]
   \<and> users (db (rollback_user_registration
            (env_with_faults demo_env [TenantService_delete_by_id (S ''u1'')]) (S ''u1'')
            (world0 demo_db))) = []
   \<and> tenants (db (rollback_user_registration
            (env_with_faults demo_env [TenantService_delete_by_id (S ''u1'')]) (S ''u1'')
            (world0 demo_db))) = tenants demo_db
   \<and> user_tenants (db (rollback_user_registration
            (env_with_faults demo_env [TenantService_delete_by_id (S ''u1'')]) (S ''u1'')
            (world0 demo_db))) = []
   \<and> tenant_llms (db (rollback_user_registration
            (env_with_faults demo_env [TenantService_delete_by_id (S ''u1'')]) (S ''u1'')
            (world0 demo_db))) = [\<lparr>tl_tenant_id = S ''u2'', tl_llm_name = Some (S ''m'')\<rparr>]"
  using rollback_four_attempts
          [of "env_with_faults demo_env [TenantService_delete_by_id (S ''u1'')]" "S ''u1''"
              "world0 demo_db"]
  by (simp add: demo_db_simps)

theorem get_user_details_not_found_witness:
  "User_where_id (S ''u9'') (db (world0 demo_db)) = []
   \<and> fst (get_user_details demo_env (S ''u9'') (world0 demo_db)) = None
   \<and> console (snd (get_user_details demo_env (S ''u9'') (world0 demo_db)))
       = [P_user_not_found (S ''u9'')]"
proof -
  have h: "User_where_id (S ''u9'') (db (world0 demo_db)) = []"
    by (simp add: demo_db_simps)
  have i: "db_initialized demo_env \<and> \<not> db_fault demo_env (User_first (S ''u9''))"
    by (simp add: demo_env_def)
  from get_user_details_not_found [OF h, of demo_env] i h show ?thesis
    by (simp add: say_def world0_def)
qed

lemma strip_DELETE: "strip (S ''DELETE'') = S ''DELETE''" "strip (S '' DELETE'') = S ''DELETE''"
  "strip (S ''no'') \<noteq> S ''DELETE''"
  by (simp_all add: strip_def is_space_def S_simps)

lemma demo_details:
  "fst (get_user_details (demo_env\<lparr>stdin := typed\<rparr>) (S ''u1'') (world0 demo_db)) = Some demo_account"
  by (simp add: get_user_details_def query_eq demo_db_simps say_def)

theorem delete_user_reports_witness:
  "fst (delete_user demo_env (S ''u1'') True (world0 demo_db))
   \<and> User_where_id (S ''u1'') (db (snd (delete_user demo_env (S ''u1'') True (world0 demo_db)))) = []
   \<and> Tenant_where_id (S ''u1'') (db (snd (delete_user demo_env (S ''u1'') True (world0 demo_db)))) = []"
proof -
  let ?w = "world0 demo_db"
  let ?g = "get_user_details demo_env (S ''u1'') ?w"
  let ?c = "confirm_prompt demo_env demo_account True (snd ?g)"
  have e: "demo_env\<lparr>stdin := Some (S ''DELETE'')\<rparr> = demo_env"
    by (simp add: demo_env_def)
  have g: "?g = (Some demo_account, snd ?g)"
    using demo_details [of "Some (S ''DELETE'')"] by (simp add: e prod_eq_iff)
  have c: "?c = (Inr True, snd ?c)"
    by (simp add: confirm_prompt_def demo_env_def strip_DELETE Let_def prod_eq_iff)
  have n: "no_delete_fault demo_env (S ''u1'')
           \<and> \<not> db_fault demo_env (User_exists (S ''u1''))
           \<and> \<not> db_fault demo_env (Tenant_exists (S ''u1''))"
    by (simp add: no_delete_fault_def demo_env_def)
  have run: "delete_user demo_env (S ''u1'') True ?w
             = (fst (delete_user demo_env (S ''u1'') True ?w),
                snd (delete_user demo_env (S ''u1'') True ?w))"
    by simp
  from delete_user_reports [OF run] g c n show ?thesis by blast
qed

theorem delete_user_refused_witness:
  "\<not> fst (delete_user (demo_env\<lparr>stdin := Some (S ''no'')\<rparr>) (S ''u1'') True (world0 demo_db))
   \<and> db (snd (delete_user (demo_env\<lparr>stdin := Some (S ''no'')\<rparr>) (S ''u1'') True (world0 demo_db)))
       = demo_db"
proof -
  let ?env = "demo_env\<lparr>stdin := Some (S ''no'')\<rparr>"
  have r: "(True \<and> (\<forall>line. stdin ?env = Some line \<longrightarrow> strip line \<noteq> S ''DELETE''))
           \<or> User_where_id (S ''u1'') (db (world0 demo_db)) = []"
    by (simp add: strip_DELETE)
  have run: "delete_user ?env (S ''u1'') True (world0 demo_db)
             = (fst (delete_user ?env (S ''u1'') True (world0 demo_db)),
                snd (delete_user ?env (S ''u1'') True (world0 demo_db)))"
    by simp
  from delete_user_refused [OF run r] show ?thesis by (simp add: world0_def)
qed

text \<open>
  The claim as stated fails: the line \<open>DELETE\<close> typed after a blank is not the exact
  string, yet it is stripped before the comparison, and the deletion goes ahead.
\<close>

theorem delete_user_refused_counterexample:
  "S '' DELETE'' \<noteq> S ''DELETE''
   \<and> fst (delete_user (demo_env\<lparr>stdin := Some (S '' DELETE'')\<rparr>) (S ''u1'') True (world0 demo_db))
   \<and> users (db (snd (delete_user (demo_env\<lparr>stdin := Some (S '' DELETE'')\<rparr>) (S ''u1'') True
                        (world0 demo_db)))) = []
   \<and> UserService_delete_by_id (S ''u1'')
       \<in> set (db_log (snd (delete_user (demo_env\<lparr>stdin := Some (S '' DELETE'')\<rparr>) (S ''u1'') True
                              (world0 demo_db))))"
proof -
  let ?env = "demo_env\<lparr>stdin := Some (S '' DELETE'')\<rparr>"
  let ?w = "world0 demo_db"
  let ?g = "get_user_details ?env (S ''u1'') ?w"
  let ?c = "confirm_prompt ?env demo_account True (snd ?g)"
  have g: "?g = (Some demo_account, snd ?g)"
    using demo_details [of "Some (S '' DELETE'')"] by (simp add: prod_eq_iff)
  have c: "?c = (Inr True, snd ?c)"
    by (simp add: confirm_prompt_def strip_DELETE Let_def prod_eq_iff)
  have d: "db (snd ?c) = demo_db"
    using get_user_details_cases [OF g] confirm_prompt_cases [OF c] by (simp add: world0_def)
  have f: "\<not> db_fault ?env call" for call
    by (simp add: demo_env_def)
  show ?thesis
    unfolding delete_user_confirmed [OF g c]
    apply (simp add: rollback_eq f d say_def Let_def)
    apply (simp add: User_where_id_def Tenant_where_id_def demo_db_def demo_account_def
             demo_env_def S_simps)
    done
qed



section \<open>The client wrapper and the listings\<close>

text \<open>
  Claim C6, as amended. Construction needs the bearer token: without one, or with an empty
  one, it raises ValueError whatever the base URL. The base URL is optional: left out, it
  defaults to \<open>http://localhost:9380\<close> and construction succeeds; given, it is kept
  (without trailing slashes); an explicit \<open>None\<close> raises AttributeError.
\<close>

theorem client_construction:
  "(api_token_arg = Omitted \<or> api_token_arg = PyNone \<or> api_token_arg = Given [] \<longrightarrow>
      RAGFlowSDKClient_init base_url_arg api_token_arg = Inl ValueError)
   \<and> (token \<noteq> [] \<longrightarrow>
        RAGFlowSDKClient_init Omitted (Given token)
          = Inr \<lparr>client_base_url = rstrip_slash default_base_url, client_api_token = token,
                 client_rag = \<lparr>rag_api_key = token, rag_base_url = default_base_url\<rparr>\<rparr>
        \<and> RAGFlowSDKClient_init (Given url) (Given token)
          = Inr \<lparr>client_base_url = rstrip_slash url, client_api_token = token,
                 client_rag = \<lparr>rag_api_key = token, rag_base_url = url\<rparr>\<rparr>
        \<and> RAGFlowSDKClient_init PyNone (Given token) = Inl AttributeError)"
  by (auto simp: RAGFlowSDKClient_init_def)

theorem client_construction_witness:
  "RAGFlowSDKClient_init (Given (S ''http://h/'')) Omitted = Inl ValueError
   \<and> RAGFlowSDKClient_init (Given (S ''http://h/'')) (Given (S ''t''))
       = Inr \<lparr>client_base_url = S ''http://h'', client_api_token = S ''t'',
              client_rag = \<lparr>rag_api_key = S ''t'', rag_base_url = S ''http://h/''\<rparr>\<rparr>"
  using client_construction [of Omitted "Given (S ''http://h/'')" "S ''t''" "S ''http://h/''"]
  by (simp add: rstrip_slash_def S_simps)

text \<open>
  The claim as stated fails: with a token and no base URL, construction succeeds.
\<close>

theorem client_construction_counterexample:
  "RAGFlowSDKClient_init Omitted (Given (S ''t''))
     = Inr \<lparr>client_base_url = S ''http://localhost:9380'', client_api_token = S ''t'',
            client_rag = \<lparr>rag_api_key = S ''t'', rag_base_url = S ''http://localhost:9380''\<rparr>\<rparr>"
  by (simp add: RAGFlowSDKClient_init_def default_base_url_def rstrip_slash_def S_simps)

lemma logged_listing_calls:
  "sdk_calls (snd (logged_listing remote call w)) = sdk_calls w @ [call]"
  by (simp add: logged_listing_def Let_def split: sum.splits option.splits)

lemma logged_listing_result:
  "fst (logged_listing remote call w) =
     (case remote call of
        Inl e \<Rightarrow> Inl e | Inr None \<Rightarrow> Inl TypeError | Inr (Some items) \<Rightarrow> Inr (Some items))"
  by (simp add: logged_listing_def Let_def split: sum.splits option.splits)

lemma logged_listing_empty:
  "remote call = Inr (Some []) \<Longrightarrow> fst (logged_listing remote call w) = Inr (Some [])"
  by (simp add: logged_listing_result)

lemma logged_listing_not_None: "fst (logged_listing remote call w) \<noteq> Inr None"
  by (simp add: logged_listing_result split: sum.splits option.splits)

lemma list_users_loop_all:
  "\<forall>u \<in> set rows. user_nickname u \<noteq> None \<and> user_email u \<noteq> None \<and> user_login_channel u \<noteq> None
   \<Longrightarrow> fst (list_users_loop rows acc w) = Inr (acc @ map user_dict rows)"
  by (induction rows arbitrary: acc w) simp_all

lemma list_users_all:
  assumes "db_initialized env" "\<not> db_fault env User_select"
      and "\<forall>u \<in> set (users (db w)).
             user_nickname u \<noteq> None \<and> user_email u \<noteq> None \<and> user_login_channel u \<noteq> None"
  shows "fst (list_users env w) = map user_dict (users (db w))"
proof (cases "users (db w) = []")
  case True
  with assms show ?thesis by (simp add: list_users_def query_eq)
next
  case False
  let ?w1 = "say P_user_list_header (w\<lparr>db_log := db_log w @ [User_select]\<rparr>)"
  have "fst (list_users_loop (users (db w)) [] ?w1) = Inr ([] @ map user_dict (users (db w)))"
    using assms(3) by (rule list_users_loop_all)
  then obtain w2 where "list_users_loop (users (db w)) [] ?w1 = (Inr (map user_dict (users (db w))), w2)"
    by (cases "list_users_loop (users (db w)) [] ?w1") simp
  with assms False show ?thesis by (simp add: list_users_def query_eq)
qed

lemma list_users_empty: "users (db w) = [] \<Longrightarrow> fst (list_users env w) = []"
  by (simp add: list_users_def query_eq)

text \<open>
  Claim C7. Each listing method of the client wrapper makes exactly one remote call, with
  the page and page size it was given; an empty list from the remote call is returned as
  an empty list, and the result is never \<open>None\<close> (a \<open>None\<close> from the remote call
  raises TypeError at \<open>len\<close>). \<open>list_users\<close> of the admin tool takes no page
  arguments: it returns every row, and an empty list for an empty table.
\<close>

theorem listing_forwards_pages:
  "sdk_calls (snd (list_datasets remote page page_size name w))
     = sdk_calls w @ [RAG_list_datasets page page_size name]
   \<and> sdk_calls (snd (list_documents remote dataset keywords page page_size w))
     = sdk_calls w @ [DataSet_list_documents dataset keywords page page_size]
   \<and> sdk_calls (snd (list_chunks remote document keywords page page_size w))
     = sdk_calls w @ [Document_list_chunks document keywords page page_size]
   \<and> sdk_calls (snd (list_chat_assistants remote page page_size name w))
     = sdk_calls w @ [RAG_list_chats page page_size name]
   \<and> sdk_calls (snd (list_sessions remote chat page page_size name w))
     = sdk_calls w @ [Chat_list_sessions chat page page_size name]
   \<and> sdk_calls (snd (list_agents remote page page_size title w))
     = sdk_calls w @ [RAG_list_agents page page_size title]
   \<and> sdk_calls (snd (list_agent_sessions remote agent page page_size w))
     = sdk_calls w @ [Agent_list_sessions agent page page_size]
   \<and> (remote (RAG_list_datasets page page_size name) = Inr (Some []) \<longrightarrow>
        fst (list_datasets remote page page_size name w) = Inr (Some []))
   \<and> (remote (DataSet_list_documents dataset keywords page page_size) = Inr (Some []) \<longrightarrow>
        fst (list_documents remote dataset keywords page page_size w) = Inr (Some []))
   \<and> (remote (Document_list_chunks document keywords page page_size) = Inr (Some []) \<longrightarrow>
        fst (list_chunks remote document keywords page page_size w) = Inr (Some []))
   \<and> (remote (RAG_list_chats page page_size name) = Inr (Some []) \<longrightarrow>
        fst (list_chat_assistants remote page page_size name w) = Inr (Some []))
   \<and> (remote (Chat_list_sessions chat page page_size name) = Inr (Some []) \<longrightarrow>
        fst (list_sessions remote chat page page_size name w) = Inr (Some []))
   \<and> (remote (RAG_list_agents page page_size title) = Inr (Some []) \<longrightarrow>
        fst (list_agents remote page page_size title w) = Inr (Some []))
   \<and> (remote (Agent_list_sessions agent page page_size) = Inr (Some []) \<longrightarrow>
        fst (list_agent_sessions remote agent page page_size w) = Inr (Some []))
   \<and> fst (list_datasets remote page page_size name w) \<noteq> Inr None
   \<and> fst (list_documents remote dataset keywords page page_size w) \<noteq> Inr None
   \<and> fst (list_chunks remote document keywords page page_size w) \<noteq> Inr None
   \<and> fst (list_chat_assistants remote page page_size name w) \<noteq> Inr None
   \<and> fst (list_sessions remote chat page page_size name w) \<noteq> Inr None
   \<and> fst (list_agents remote page page_size title w) \<noteq> Inr None
   \<and> fst (list_agent_sessions remote agent page page_size w) \<noteq> Inr None
   \<and> (users (db aw) = [] \<longrightarrow> fst (list_users env aw) = [])
   \<and> (db_initialized env \<and> \<not> db_fault env User_select
        \<and> (\<forall>u \<in> set (users (db aw)).
              user_nickname u \<noteq> None \<and> user_email u \<noteq> None \<and> user_login_channel u \<noteq> None)
        \<longrightarrow> fst (list_users env aw) = map user_dict (users (db aw)))"
  by (simp add: list_users_all list_datasets_def list_documents_def list_chunks_def list_chat_assistants_def
        list_sessions_def list_agents_def list_agent_sessions_def logged_listing_calls
        logged_listing_empty logged_listing_not_None list_users_empty)

theorem listing_forwards_pages_witness:
  "sdk_calls (snd (list_datasets demo_remote 2 50 None sdk_world0)) = [RAG_list_datasets 2 50 None]
   \<and> fst (list_datasets demo_remote 2 50 None sdk_world0) = Inr (Some [])
   \<and> fst (list_users demo_env (world0 empty_db)) = []
   \<and> fst (list_users demo_env (world0 demo_db)) = [user_dict demo_account]"
proof -
  note t = listing_forwards_pages
             [where remote = demo_remote and page = 2 and page_size = 50 and name = None
                and w = sdk_world0 and env = demo_env]
  have a: "sdk_calls (snd (list_datasets demo_remote 2 50 None sdk_world0))
             = [RAG_list_datasets 2 50 None]
           \<and> fst (list_datasets demo_remote 2 50 None sdk_world0) = Inr (Some [])
           \<and> fst (list_users demo_env (world0 empty_db)) = []"
    using t [where aw = "world0 empty_db"]
    by (simp add: demo_remote_def sdk_world0_def world0_def empty_db_def)
  have h: "db_initialized demo_env \<and> \<not> db_fault demo_env User_select
           \<and> (\<forall>u \<in> set (users (db (world0 demo_db))).
                 user_nickname u \<noteq> None \<and> user_email u \<noteq> None \<and> user_login_channel u \<noteq> None)"
    by (simp add: demo_env_def world0_def demo_db_def demo_account_def)
  have b: "fst (list_users demo_env (world0 demo_db)) = map user_dict (users (db (world0 demo_db)))"
    using t [where aw = "world0 demo_db"] h by blast
  have "fst (list_users demo_env (world0 demo_db)) = [user_dict demo_account]"
    using b by (simp add: world0_def demo_db_def)
  with a show ?thesis by simp
qed


section \<open>Registration, token issuance and test users\<close>

lemma check_server_status_log:
  "check_server_status env w = (alive, w1) \<Longrightarrow>
     http_log w1 = http_log w @ [GET (host env @ S ''/v1/user/login/channels'') (session_auth w)]"
  by (auto simp: check_server_status_def send_def say_def Let_def split: sum.splits if_splits)

lemma encrypt_password_log:
  "encrypt_password env password w = (r, w1) \<Longrightarrow> http_log w1 = http_log w"
  by (auto simp: encrypt_password_def say_def split: sum.splits)

lemma register_user_log:
  assumes "register_user env nickname email password w = (r, w2)"
  shows "\<exists>rs. http_log w2 = http_log w @ rs
              \<and> set (map request_url rs) \<subseteq> {host env @ S ''/v1/user/register''}"
proof -
  obtain enc w1 where e: "encrypt_password env password w = (enc, w1)"
    by (cases "encrypt_password env password w")
  have l: "http_log w1 = http_log w" by (rule encrypt_password_log [OF e])
  show ?thesis
  proof (cases "enc = None \<or> enc = Some []")
    case True
    with assms e l show ?thesis by (auto simp: register_user_def)
  next
    case False
    then obtain encrypted where s: "enc = Some encrypted" "encrypted \<noteq> []" by auto
    let ?rq = "POST (host env @ S ''/v1/user/register'') (session_auth w1)
                 (JObj [(S ''nickname'', JStr nickname), (S ''email'', JStr email),
                        (S ''password'', JStr encrypted)])"
    have "http_log w2 = http_log w @ [?rq]"
      using assms e s l
      by (auto simp: register_user_def send_def say_def keep_authorization_def try_bind_def
            Let_def split: sum.splits if_splits option.splits)
    then show ?thesis by simp
  qed
qed

lemma register_user_truthy:
  assumes "register_user env nickname email password w = (Some result, w2)"
  shows "truthy result"
proof -
  have k: "dict_get result (S ''code'') = Inr code \<Longrightarrow> py_eq_zero code \<Longrightarrow> truthy result"
    for code
    by (cases result) (auto simp: dict_get_def dict_get_default_def split: option.splits)
  from assms show ?thesis
    by (auto simp: register_user_def try_bind_def Let_def k
          split: prod.splits option.splits if_splits sum.splits)
qed

lemma urls_differ:
  "host env @ S ''/v1/system/new_token'' \<noteq> host env @ S ''/v1/user/register''"
  by (simp add: S_simps)

text \<open>
  Claim C3. In \<open>register_user_and_get_api_token\<close> each step waits for the one
  before: when the probe fails, the probe is the only request sent and the result is
  \<open>None\<close>; when the registration fails, no request goes to the token endpoint and the
  result is \<open>None\<close>; when the token step is reached and yields no token, the result is
  the partial dictionary of the user data, a null \<open>api_token\<close> and a message.
\<close>

theorem registration_flow_gated:
  assumes probe: "check_server_status env w = (alive, w1)"
      and reg: "register_user env nickname email password w1 = (registered, w2)"
      and run: "register_user_and_get_api_token env nickname email password w = (res, w')"
  shows "(\<not> alive \<longrightarrow>
            res = Inr JNull
            \<and> sent_since w w' = [GET (host env @ S ''/v1/user/login/channels'') (session_auth w)])
         \<and> (alive \<and> registered = None \<longrightarrow>
              res = Inr JNull
              \<and> host env @ S ''/v1/system/new_token'' \<notin> set (map request_url (sent_since w w')))
         \<and> (\<forall>result user_info uid api_token w4.
              alive \<and> registered = Some result
              \<and> dict_get_default result (S ''data'') (JObj []) = Inr user_info
              \<and> dict_get user_info (S ''id'') = Inr uid
              \<and> get_api_token env (say (P_register_ok nickname uid) w2) = (api_token, w4)
              \<and> \<not> truthy api_token
              \<longrightarrow> res = Inr (JObj [(S ''user'', user_info), (S ''api_token'', JNull),
                                  (S ''message'', JStr partial_message)])
                  \<and> w' = say P_token_warning w4)"
proof (intro conjI allI impI)
  note l1 = check_server_status_log [OF probe]
  {
    assume "\<not> alive"
    with run probe show "res = Inr JNull"
      by (simp add: register_user_and_get_api_token_def)
    from \<open>\<not> alive\<close> run probe have "w' = say P_server_unavailable w1"
      by (simp add: register_user_and_get_api_token_def)
    then show "sent_since w w' = [GET (host env @ S ''/v1/user/login/channels'') (session_auth w)]"
      by (simp add: sent_since_def say_def l1)
  next
    assume a: "alive \<and> registered = None"
    with run probe reg show "res = Inr JNull"
      by (simp add: register_user_and_get_api_token_def)
    from a run probe reg have "w' = w2"
      by (simp add: register_user_and_get_api_token_def)
    moreover obtain rs where "http_log w2 = http_log w1 @ rs"
        "set (map request_url rs) \<subseteq> {host env @ S ''/v1/user/register''}"
      using register_user_log [OF reg] by blast
    ultimately show
      "host env @ S ''/v1/system/new_token'' \<notin> set (map request_url (sent_since w w'))"
      using urls_differ [of env] by (auto simp: sent_since_def l1 S_simps)
  next
    fix result user_info uid api_token w4
    assume h: "alive \<and> registered = Some result
              \<and> dict_get_default result (S ''data'') (JObj []) = Inr user_info
              \<and> dict_get user_info (S ''id'') = Inr uid
              \<and> get_api_token env (say (P_register_ok nickname uid) w2) = (api_token, w4)
              \<and> \<not> truthy api_token"
    then have t: "truthy result"
      using register_user_truthy reg by blast
    from h t run probe reg
    show "res = Inr (JObj [(S ''user'', user_info), (S ''api_token'', JNull),
                           (S ''message'', JStr partial_message)])"
      and "w' = say P_token_warning w4"
      by (simp_all add: register_user_and_get_api_token_def Let_def)
  }
qed


text \<open>
  The one other way out of the flow: a successful registration answer whose \<open>data\<close>
  is not an object makes the success message raise before the token step is reached.
\<close>

lemma registration_data_not_object:
  assumes probe: "check_server_status env w = (True, w1)"
      and reg: "register_user env nickname email password w1 = (Some result, w2)"
      and run: "register_user_and_get_api_token env nickname email password w = (res, w')"
      and bad: "try_bind (dict_get_default result (S ''data'') (JObj []))
                  (\<lambda>user_info. dict_get user_info (S ''id'')) = Inl e"
  shows "res = Inl e \<and> w' = w2"
proof -
  have t: "truthy result" by (rule register_user_truthy [OF reg])
  from bad have
    "try_bind (dict_get_default result (S ''data'') (JObj []))
       (\<lambda>user_info. try_bind (dict_get user_info (S ''id'')) (\<lambda>uid. Inr (user_info, uid))) = Inl e"
    by (auto simp: try_bind_def split: sum.splits)
  with run probe reg t show ?thesis
    by (simp add: register_user_and_get_api_token_def)
qed

lemma registration_success_shape:
  assumes run: "register_user_and_get_api_token env nickname email password w = (Inr result, w')"
      and s: "dict_get result (S ''success'') = Inr success" "truthy success"
  shows "\<exists>uid nick mail created access api_token w4.
           result = JObj [(S ''user'',
                           JObj [(S ''id'', uid), (S ''nickname'', nick), (S ''email'', mail),
                                 (S ''create_time'', created), (S ''access_token'', access)]),
                          (S ''api_token'', api_token), (S ''tenant_id'', uid),
                          (S ''success'', JBool True)]
           \<and> truthy api_token \<and> w' = say (P_token_ok api_token) w4"
proof -
  obtain alive w1 where p: "check_server_status env w = (alive, w1)"
    by (cases "check_server_status env w")
  obtain registered w2 where r: "register_user env nickname email password w1 = (registered, w2)"
    by (cases "register_user env nickname email password w1")
  have n: "result \<noteq> JNull"
    using s by (auto simp: dict_get_def dict_get_default_def)
  from run p n have a: alive
    by (auto simp: register_user_and_get_api_token_def split: if_splits)
  from run p r a n obtain reg_result where g: "registered = Some reg_result" "truthy reg_result"
    by (auto simp: register_user_and_get_api_token_def split: option.splits if_splits)
  from run p r a g obtain user_info uid where
    u: "try_bind (dict_get_default reg_result (S ''data'') (JObj []))
          (\<lambda>user_info. try_bind (dict_get user_info (S ''id'')) (\<lambda>uid. Inr (user_info, uid)))
        = Inr (user_info, uid)"
    by (auto simp: register_user_and_get_api_token_def split: sum.splits)
  obtain api_token w4 where
    t: "get_api_token env (say (P_register_ok nickname uid) w2) = (api_token, w4)"
    by (cases "get_api_token env (say (P_register_ok nickname uid) w2)")
  have k: "truthy api_token"
  proof (rule ccontr)
    assume "\<not> truthy api_token"
    with run p r a g u t have
      "result = JObj [(S ''user'', user_info), (S ''api_token'', JNull),
                      (S ''message'', JStr partial_message)]"
      by (simp add: register_user_and_get_api_token_def Let_def)
    with s show False
      by (simp add: dict_get_def dict_get_default_def S_simps)
  qed
  from run p r a g u t k show ?thesis
    by (auto simp: register_user_and_get_api_token_def Let_def try_bind_def split: sum.splits)
qed

text \<open>
  Claim C8. Whenever \<open>create_test_user\<close> returns a result marked as a success, the
  file \<open>ragflow_user_<suffix>.json\<close> (the suffix supplied, or the first eight
  characters of the generated UUID) holds exactly that result; its \<open>api_token\<close> is
  the token printed on the console, and its \<open>tenant_id\<close> is the \<open>id\<close> of its
  user.
\<close>

theorem create_test_user_file:
  assumes run: "create_test_user env user_suffix_arg w = (Inr result, w')"
      and s: "dict_get result (S ''success'') = Inr success" "truthy success"
  shows "files w' (S ''ragflow_user_'' @ effective_suffix env user_suffix_arg @ S ''.json'')
           = Some result
         \<and> (\<exists>uid nick mail created access api_token.
              result = JObj [(S ''user'',
                              JObj [(S ''id'', uid), (S ''nickname'', nick), (S ''email'', mail),
                                    (S ''create_time'', created), (S ''access_token'', access)]),
                             (S ''api_token'', api_token), (S ''tenant_id'', uid),
                             (S ''success'', JBool True)]
              \<and> P_token_ok api_token \<in> set (console w')
              \<and> P_test_user_created uid nick mail api_token uid \<in> set (console w'))"
proof -
  let ?suffix = "effective_suffix env user_suffix_arg"
  let ?nickname = "S ''TestUser_'' @ ?suffix"
  let ?email = "S ''user_'' @ ?suffix @ S ''@example.com''"
  let ?w1 = "say (P_test_user_banner ?nickname ?email (S ''Test123456'')) w"
  obtain r w2 where
    f: "register_user_and_get_api_token env ?nickname ?email (S ''Test123456'') ?w1 = (r, w2)"
    by (cases "register_user_and_get_api_token env ?nickname ?email (S ''Test123456'') ?w1")
  from run f have r: "r = Inr result"
    by (auto simp: create_test_user_def Let_def split: sum.splits if_splits)
  from registration_success_shape [OF f [unfolded r] s]
  obtain uid nick mail created access api_token w4 where
    shape: "result = JObj [(S ''user'',
                            JObj [(S ''id'', uid), (S ''nickname'', nick), (S ''email'', mail),
                                  (S ''create_time'', created), (S ''access_token'', access)]),
                           (S ''api_token'', api_token), (S ''tenant_id'', uid),
                           (S ''success'', JBool True)]"
    and w2: "w2 = say (P_token_ok api_token) w4"
    by blast
  have items:
    "try_bind (item result (S ''user'')) (\<lambda>user.
     try_bind (item user (S ''id'')) (\<lambda>uid.
     try_bind (item user (S ''nickname'')) (\<lambda>nick.
     try_bind (item user (S ''email'')) (\<lambda>mail.
     try_bind (item result (S ''api_token'')) (\<lambda>api_token.
     try_bind (item result (S ''tenant_id'')) (\<lambda>tenant.
       Inr (P_test_user_created uid nick mail api_token tenant)))))))
     = Inr (P_test_user_created uid nick mail api_token uid)"
    by (simp add: shape item_def S_simps)
  have d: "dict_get result (S ''success'') = Inr (JBool True)"
    by (simp add: shape dict_get_def dict_get_default_def S_simps)
  have tr: "truthy result" by (simp add: shape)
  let ?name = "S ''ragflow_user_'' @ ?suffix @ S ''.json''"
  from run f r items d tr have nf: "\<not> open_fault env ?name"
    by (auto simp: create_test_user_def Let_def split: if_splits)
  from run f r items d tr nf have
    w': "w' = say (P_test_user_saved ?name)
               ((say (P_test_user_created uid nick mail api_token uid) w2)
                  \<lparr>files := (files (say (P_test_user_created uid nick mail api_token uid) w2))
                              (?name \<mapsto> result)\<rparr>)"
    by (simp add: create_test_user_def Let_def)
  have "files w' ?name = Some result"
    by (simp add: w' say_def)
  moreover have "P_token_ok api_token \<in> set (console w')"
    by (simp add: w' w2 say_def)
  moreover have "P_test_user_created uid nick mail api_token uid \<in> set (console w')"
    by (simp add: w' say_def)
  ultimately show ?thesis using shape by blast
qed



subsection \<open>Runs of the flow in the concrete setting\<close>

lemma b64encode_nonempty: "bs \<noteq> [] \<Longrightarrow> b64encode bs \<noteq> []"
  by (cases bs rule: b64encode.cases) simp_all

lemma demo_cipher:
  "spec_encrypt_procedure demo_env (S ''Test123456'') = Some demo_cipher_text"
  "demo_cipher_text \<noteq> []"
proof -
  have u: "str_encode (S ''Test123456'') = Inr (map byte_of (S ''Test123456''))"
    by (rule str_encode_ascii) (simp add: S_simps)
  have l: "length (b64encode (map byte_of (S ''Test123456''))) = 16"
    by (simp add: S_simps)
  have "\<exists>t. spec_encrypt_procedure demo_env (S ''Test123456'') = Some t \<and> t \<noteq> []"
    by (simp add: spec_encrypt_procedure_def u l demo_env_def demo_rsa_def b64encode_nonempty)
  then show "spec_encrypt_procedure demo_env (S ''Test123456'') = Some demo_cipher_text"
    and "demo_cipher_text \<noteq> []"
    by (auto simp: demo_cipher_text_def)
qed

lemma demo_encrypt_password:
  assumes "rsa env = demo_rsa" "public_key env = S ''demo public key''"
  shows "encrypt_password env (S ''Test123456'') w = (Some demo_cipher_text, w)"
proof -
  have d: "rsa demo_env = demo_rsa" "public_key demo_env = S ''demo public key''"
    by (simp_all add: demo_env_def)
  have "spec_encrypt_procedure env (S ''Test123456'')
          = spec_encrypt_procedure demo_env (S ''Test123456'')"
    by (simp add: spec_encrypt_procedure_def assms d cong: sum.case_cong)
  then have "spec_encrypt_procedure env (S ''Test123456'') = Some demo_cipher_text"
    by (simp add: demo_cipher)
  then show ?thesis
    by (auto simp: encrypt_password_def spec_encrypt_procedure_def encrypt_password_try_eq
          split: sum.splits)
qed

lemma demo_check:
  assumes "server env = demo_server a b c"
  shows "fst (check_server_status env w) = a"
  using assms
  by (simp add: check_server_status_def send_def demo_server_def Let_def)

lemma demo_register:
  assumes "rsa env = demo_rsa" "public_key env = S ''demo public key''"
      and "host env = S ''http://localhost:9380''" "server env = demo_server a b c"
  shows "fst (register_user env nickname email (S ''Test123456'') w)
           = (if b then Some (JObj [(S ''code'', JNum 0), (S ''data'', demo_user)]) else None)"
  unfolding register_user_def demo_encrypt_password [OF assms(1,2)]
  using assms(3,4) demo_cipher(2)
  by (simp add: send_def say_def demo_server_def response_json_def dict_get_def
        dict_get_default_def Let_def S_simps)

lemma demo_token:
  assumes "host env = S ''http://localhost:9380''" "server env = demo_server a b c"
  shows "fst (get_api_token env w) = (if c then JStr (S ''ragflow-t1'') else JNull)"
  using assms
  by (simp add: get_api_token_def send_def say_def demo_server_def response_json_def dict_get_def
        dict_get_default_def Let_def S_simps)


lemma demo_env_server_fields:
  "rsa (demo_env_server a b c) = demo_rsa"
  "public_key (demo_env_server a b c) = S ''demo public key''"
  "host (demo_env_server a b c) = S ''http://localhost:9380''"
  "server (demo_env_server a b c) = demo_server a b c"
  "open_fault (demo_env_server a b c) name = False"
  by (simp_all add: demo_env_server_def demo_env_def)

lemmas demo_run =
  demo_check [OF demo_env_server_fields(4)]
  demo_register [OF demo_env_server_fields(1,2,3,4)]
  demo_token [OF demo_env_server_fields(3,4)]

lemma demo_flow:
  "fst (register_user_and_get_api_token (demo_env_server True True True) nickname email
          (S ''Test123456'') w) = Inr demo_result"
  unfolding register_user_and_get_api_token_def case_prod_beta Let_def demo_run
  by (simp add: dict_get_def dict_get_default_def demo_user_def demo_result_def try_bind_def
        S_simps)

lemma demo_create:
  "fst (create_test_user (demo_env_server True True True) user_suffix_arg w) = Inr demo_result"
  unfolding create_test_user_def case_prod_beta Let_def demo_flow
  by (simp add: dict_get_def dict_get_default_def item_def demo_result_def
        demo_env_server_fields S_simps)

theorem registration_flow_gated_witness:
  "fst (register_user_and_get_api_token (demo_env_server False True True) (S ''ann'')
          (S ''ann@example.com'') (S ''Test123456'') (world0 empty_db)) = Inr JNull
   \<and> sent_since (world0 empty_db)
        (snd (register_user_and_get_api_token (demo_env_server False True True) (S ''ann'')
                (S ''ann@example.com'') (S ''Test123456'') (world0 empty_db)))
       = [GET (S ''http://localhost:9380/v1/user/login/channels'') None]
   \<and> fst (register_user_and_get_api_token (demo_env_server True False True) (S ''ann'')
            (S ''ann@example.com'') (S ''Test123456'') (world0 empty_db)) = Inr JNull
   \<and> fst (register_user_and_get_api_token (demo_env_server True True False) (S ''ann'')
            (S ''ann@example.com'') (S ''Test123456'') (world0 empty_db))
       = Inr (JObj [(S ''user'', demo_user), (S ''api_token'', JNull),
                    (S ''message'', JStr partial_message)])"
proof -
  let ?w = "world0 empty_db"
  let ?n = "S ''ann''" and ?e = "S ''ann@example.com''" and ?p = "S ''Test123456''"
  have a: "fst (register_user_and_get_api_token (demo_env_server False True True) ?n ?e ?p ?w)
             = Inr JNull
           \<and> sent_since ?w (snd (register_user_and_get_api_token
                                    (demo_env_server False True True) ?n ?e ?p ?w))
             = [GET (S ''http://localhost:9380/v1/user/login/channels'') None]"
  proof -
    let ?env = "demo_env_server False True True"
    let ?c = "check_server_status ?env ?w"
    let ?r = "register_user ?env ?n ?e ?p (snd ?c)"
    let ?f = "register_user_and_get_api_token ?env ?n ?e ?p ?w"
    have p: "?c = (False, snd ?c)" by (simp add: prod_eq_iff demo_run)
    have r: "?r = (fst ?r, snd ?r)" by simp
    have run: "?f = (fst ?f, snd ?f)" by simp
    from registration_flow_gated [OF p r run]
    have "fst ?f = Inr JNull
          \<and> sent_since ?w (snd ?f)
              = [GET (host ?env @ S ''/v1/user/login/channels'') (session_auth ?w)]"
      by simp
    then show ?thesis
      by (simp add: demo_env_server_fields world0_def S_simps)
  qed
  have b: "fst (register_user_and_get_api_token (demo_env_server True False True) ?n ?e ?p ?w)
             = Inr JNull"
  proof -
    let ?env = "demo_env_server True False True"
    let ?c = "check_server_status ?env ?w"
    let ?r = "register_user ?env ?n ?e ?p (snd ?c)"
    let ?f = "register_user_and_get_api_token ?env ?n ?e ?p ?w"
    have p: "?c = (True, snd ?c)" by (simp add: prod_eq_iff demo_run)
    have r: "?r = (None, snd ?r)" by (simp add: prod_eq_iff demo_run)
    have run: "?f = (fst ?f, snd ?f)" by simp
    from registration_flow_gated [OF p r run] show ?thesis by simp
  qed
  have c: "fst (register_user_and_get_api_token (demo_env_server True True False) ?n ?e ?p ?w)
             = Inr (JObj [(S ''user'', demo_user), (S ''api_token'', JNull),
                          (S ''message'', JStr partial_message)])"
  proof -
    let ?env = "demo_env_server True True False"
    let ?c = "check_server_status ?env ?w"
    let ?r = "register_user ?env ?n ?e ?p (snd ?c)"
    let ?f = "register_user_and_get_api_token ?env ?n ?e ?p ?w"
    let ?g = "get_api_token ?env (say (P_register_ok ?n (JStr (S ''u1''))) (snd ?r))"
    let ?result = "JObj [(S ''code'', JNum 0), (S ''data'', demo_user)]"
    have p: "?c = (True, snd ?c)" by (simp add: prod_eq_iff demo_run)
    have r: "?r = (Some ?result, snd ?r)" by (simp add: prod_eq_iff demo_run)
    have run: "?f = (fst ?f, snd ?f)" by simp
    have h: "True \<and> Some ?result = Some ?result
             \<and> dict_get_default ?result (S ''data'') (JObj []) = Inr demo_user
             \<and> dict_get demo_user (S ''id'') = Inr (JStr (S ''u1''))
             \<and> ?g = (JNull, snd ?g) \<and> \<not> truthy JNull"
      by (simp add: demo_run prod_eq_iff dict_get_def dict_get_default_def demo_user_def S_simps)
    from registration_flow_gated [OF p r run] h show ?thesis by blast
  qed
  from a b c show ?thesis by simp
qed

theorem create_test_user_file_witness:
  "fst (create_test_user (demo_env_server True True True) (Some (S ''ab'')) (world0 empty_db))
     = Inr demo_result
   \<and> files (snd (create_test_user (demo_env_server True True True) (Some (S ''ab''))
                   (world0 empty_db))) (S ''ragflow_user_ab.json'') = Some demo_result
   \<and> files (snd (create_test_user (demo_env_server True True True) None (world0 empty_db)))
        (S ''ragflow_user_1b4e28ba.json'') = Some demo_result"
proof -
  let ?env = "demo_env_server True True True"
  have run: "create_test_user ?env arg (world0 empty_db)
               = (Inr demo_result, snd (create_test_user ?env arg (world0 empty_db)))" for arg
    by (simp add: prod_eq_iff demo_create)
  have d: "dict_get demo_result (S ''success'') = Inr (JBool True)"
    by (simp add: demo_result_def dict_get_def dict_get_default_def S_simps)
  have t: "truthy (JBool True)" by simp
  have s1: "S ''ragflow_user_'' @ effective_suffix ?env (Some (S ''ab'')) @ S ''.json''
              = S ''ragflow_user_ab.json''"
    by (simp add: effective_suffix_def S_simps)
  have s2: "S ''ragflow_user_'' @ effective_suffix ?env None @ S ''.json''
              = S ''ragflow_user_1b4e28ba.json''"
    by (simp add: effective_suffix_def demo_env_server_def demo_env_def S_simps)
  from create_test_user_file [OF run d t, of "Some (S ''ab'')"]
       create_test_user_file [OF run d t, of None]
  show ?thesis
    by (simp add: s1 s2 demo_create)
qed


end
